theory Spec2Isabelle
  imports Main "HOL-Library.Word" "HOL-Library.Sublist"
begin

unbundle bit_operations_syntax

section \<open>JavaScript strings and numbers\<close>

text \<open>
  A JavaScript string is a sequence of UTF-16 code units. The strings the gateway handles
  (hex payloads, addresses, topics, method names) are modelled as \<^typ>\<open>string\<close>, a list of
  characters with codes 0..255. A string that a decoder builds with \<open>String.fromCharCode\<close>
  can hold any code unit, so it is a list of code units (\<^typ>\<open>nat\<close>, 0..65535).
\<close>

type_synonym codeunits = "nat list"

definition codeUnitsOf :: "string \<Rightarrow> codeunits" where
  "codeUnitsOf s = map of_char s"

text \<open>\<open>s.substr(i, n)\<close> and \<open>s.slice(-n)\<close> for non-negative \<open>i\<close>, \<open>n\<close>.\<close>

definition substr :: "string \<Rightarrow> nat \<Rightarrow> nat \<Rightarrow> string" where
  "substr s i n = take n (drop i s)"

definition sliceLast :: "nat \<Rightarrow> string \<Rightarrow> string" where
  "sliceLast n s = drop (length s - n) s"

text \<open>\<open>s.padStart(n, c)\<close> with a one-character filler.\<close>

definition padStart :: "nat \<Rightarrow> char \<Rightarrow> string \<Rightarrow> string" where
  "padStart n c s = replicate (n - length s) c @ s"

text \<open>\<open>s.toLowerCase()\<close> and \<open>s.toUpperCase()\<close> on the ASCII letters.\<close>

definition lowerChar :: "char \<Rightarrow> char" where
  "lowerChar c = (let n = (of_char c :: nat) in if 65 \<le> n \<and> n \<le> 90 then char_of (n + 32) else c)"

definition upperChar :: "char \<Rightarrow> char" where
  "upperChar c = (let n = (of_char c :: nat) in if 97 \<le> n \<and> n \<le> 122 then char_of (n - 32) else c)"

definition toLowerCase :: "string \<Rightarrow> string" where
  "toLowerCase s = map lowerChar s"

text \<open>\<open>s.replace(/^0x/, '')\<close>: one leading \<open>0x\<close> is removed, a leading \<open>0X\<close> is not.\<close>

fun strip0x :: "string \<Rightarrow> string" where
  "strip0x (a # b # r) = (if a = CHR ''0'' \<and> b = CHR ''x'' then r else a # b # r)"
| "strip0x s = s"

text \<open>\<open>s.replace(/^(00)+/, '')\<close>: the longest run of leading \<open>00\<close> pairs is removed.\<close>

fun stripZeroPairs :: "string \<Rightarrow> string" where
  "stripZeroPairs (a # b # r) =
     (if a = CHR ''0'' \<and> b = CHR ''0'' then stripZeroPairs r else a # b # r)"
| "stripZeroPairs s = s"

text \<open>\<open>s.includes(x)\<close> on strings: \<open>x\<close> occurs in \<open>s\<close> as a contiguous run.\<close>

fun includesStr :: "string \<Rightarrow> string \<Rightarrow> bool" where
  "includesStr [] x = (x = [])"
| "includesStr (c # cs) x = (prefix x (c # cs) \<or> includesStr cs x)"

subsection \<open>Hexadecimal digits\<close>

definition hexDigit :: "nat \<Rightarrow> char" where
  "hexDigit d = (if d < 10 then char_of (48 + d) else char_of (87 + d))"

definition hexVal :: "char \<Rightarrow> nat option" where
  "hexVal c = (let n = (of_char c :: nat) in
     if 48 \<le> n \<and> n \<le> 57 then Some (n - 48)
     else if 97 \<le> n \<and> n \<le> 102 then Some (n - 87)
     else if 65 \<le> n \<and> n \<le> 70 then Some (n - 55)
     else None)"

definition isHexDigit :: "char \<Rightarrow> bool" where
  "isHexDigit c = (hexVal c \<noteq> None)"

text \<open>The value of a run of hex digits, most significant first (left fold, as a parser reads).\<close>

definition hexValue :: "string \<Rightarrow> nat" where
  "hexValue z = foldl (\<lambda>acc c. 16 * acc + the (hexVal c)) 0 z"

text \<open>\<open>n.toString(16)\<close> for a non-negative integer \<open>n\<close>.\<close>

fun toString16 :: "nat \<Rightarrow> string" where
  "toString16 n = (if n < 16 then [hexDigit n] else toString16 (n div 16) @ [hexDigit (n mod 16)])"

declare toString16.simps [simp del]

text \<open>
  \<open>parseInt(s, 16)\<close>: leading white space is skipped, then an optional sign, then an optional
  \<open>0x\<close>/\<open>0X\<close>, then the longest run of hex digits; no digit gives \<open>NaN\<close> (\<open>None\<close>).
  The white space characters with codes below 256 are TAB, LF, VT, FF, CR, SP and NBSP.
\<close>

definition isStrWhiteSpace :: "char \<Rightarrow> bool" where
  "isStrWhiteSpace c = ((of_char c :: nat) \<in> {9, 10, 11, 12, 13, 32, 160})"

definition parseInt16 :: "string \<Rightarrow> int option" where
  "parseInt16 s =
    (let s1 = dropWhile isStrWhiteSpace s;
         sign = (case s1 of c # _ \<Rightarrow> if c = CHR ''-'' then (-1 :: int) else 1 | [] \<Rightarrow> 1);
         s2 = (case s1 of c # r \<Rightarrow> if c = CHR ''-'' \<or> c = CHR ''+'' then r else s1 | [] \<Rightarrow> s1);
         s3 = (case s2 of a # b # r \<Rightarrow>
                 if a = CHR ''0'' \<and> (b = CHR ''x'' \<or> b = CHR ''X'') then r else s2
               | _ \<Rightarrow> s2);
         z = takeWhile isHexDigit s3
     in if z = [] then None else Some (sign * int (hexValue z)))"

text \<open>\<open>String.fromCharCode(x)\<close>: \<open>NaN\<close> gives code unit 0, other numbers are reduced modulo \<open>2^16\<close>.\<close>

definition fromCharCode :: "int option \<Rightarrow> nat" where
  "fromCharCode x = (case x of None \<Rightarrow> 0 | Some n \<Rightarrow> nat (n mod 65536))"

section \<open>Error decoder\<close>

subsection \<open>parsePanicReason\<close>

definition parsePanicReason :: "string \<Rightarrow> string" where
  "parsePanicReason revertOutput =
    (let trimmedOutput = sliceLast 2 revertOutput in
     if trimmedOutput = ''01'' then
       ''If you call assert with an argument that evaluates to false.''
     else if trimmedOutput = ''11'' then
       ''If an arithmetic operation results in underflow or overflow outside of an unchecked { ... } block.''
     else if trimmedOutput = ''12'' then
       ''If you divide or modulo by zero (e.g. 5 / 0 or 23 % 0).''
     else if trimmedOutput = ''21'' then
       ''If you convert a value that is too big or negative into an enum type.''
     else if trimmedOutput = ''31'' then
       ''If you call .pop() on an empty array.''
     else if trimmedOutput = ''32'' then
       ''If you access an array, bytesN or an array slice at an out-of-bounds or negative index (i.e. x[i] where i >= x.length or i < 0).''
     else if trimmedOutput = ''41'' then
       ''If you allocate too much memory or create an array that is too large.''
     else if trimmedOutput = ''51'' then
       ''If you call a zero-initialized variable of internal function type.''
     else ''Default panic message'')"

subsection \<open>parseRevertReason\<close>

text \<open>
  The loop \<open>for (let i = 0; i < trimmedOutput.length; i += 2)\<close> appends one code unit per
  step; it ends because \<open>i\<close> grows towards the length.
\<close>

function parseRevertLoop :: "string \<Rightarrow> nat \<Rightarrow> codeunits \<Rightarrow> codeunits" where
  "parseRevertLoop trimmedOutput i reason =
    (if i < length trimmedOutput
     then parseRevertLoop trimmedOutput (i + 2)
            (reason @ [fromCharCode (parseInt16 (substr trimmedOutput i 2))])
     else reason)"
  by pat_completeness auto
termination
  by (relation "measure (\<lambda>(t, i, r). length t - i)") auto

declare parseRevertLoop.simps [simp del]

definition parseRevertReason :: "string \<Rightarrow> codeunits" where
  "parseRevertReason revertOutput =
    (if revertOutput = [] \<or> length revertOutput < 138 then []
     else parseRevertLoop (substr revertOutput 138 (length revertOutput)) 0 [])"


section \<open>Address and hash normalizer\<close>

text \<open>
  The Keccak-256 digest comes from the \<open>keccak\<close> package; the functions that hash take it as
  the parameter \<open>keccak\<close>, the map from the hashed text to the 64 hex digits of its digest.
\<close>

text \<open>\<open>numToHex(input)\<close> on a number, which is what every call modelled here passes.\<close>

definition numToHex :: "nat \<Rightarrow> string" where
  "numToHex input = ''0x'' @ toString16 input"

text \<open>\<open>s.replace('0x', '')\<close> with a string pattern: the first occurrence, anywhere, is removed.\<close>

fun replaceFirst0x :: "string \<Rightarrow> string" where
  "replaceFirst0x (a # b # r) =
     (if a = CHR ''0'' \<and> b = CHR ''x'' then r else a # replaceFirst0x (b # r))"
| "replaceFirst0x s = s"

definition nthOpt :: "'a list \<Rightarrow> nat \<Rightarrow> 'a option" where
  "nthOpt xs i = (if i < length xs then Some (xs ! i) else None)"

definition checksumChar :: "string \<Rightarrow> string \<Rightarrow> nat \<Rightarrow> char" where
  "checksumChar hash address i =
     (if (case nthOpt hash i of
            None \<Rightarrow> False
          | Some h \<Rightarrow> (case parseInt16 [h] of None \<Rightarrow> False | Some v \<Rightarrow> 8 \<le> v))
      then upperChar (address ! i) else address ! i)"

definition toChecksumAddress :: "(string \<Rightarrow> string) \<Rightarrow> string \<Rightarrow> string" where
  "toChecksumAddress keccak address =
    (if address = [] then address
     else let a1 = replaceFirst0x (toLowerCase address);
              a2 = (if length a1 \<noteq> 40 then padStart 40 (CHR ''0'') a1 else a1);
              hash = keccak a2
          in ''0x'' @ map (checksumChar hash a2) [0..<length a2])"

text \<open>
  \<open>getParentBlockHash\<close> and \<open>blockHexToHash\<close>. \<open>parseInt\<close> of the block number gives
  \<open>NaN\<close> when there is no digit, and \<open>(NaN - 1).toString(16)\<close> is the text \<open>NaN\<close>; a negative
  number prints with a minus sign.
\<close>

definition intToString16 :: "int option \<Rightarrow> string" where
  "intToString16 x = (case x of None \<Rightarrow> ''NaN''
     | Some n \<Rightarrow> if n < 0 then ''-'' @ toString16 (nat (- n)) else toString16 (nat n))"

definition blockHexToHash :: "(string \<Rightarrow> string) \<Rightarrow> string \<Rightarrow> string" where
  "blockHexToHash keccak blockHex = ''0x'' @ keccak (strip0x blockHex)"

definition getParentBlockHash :: "(string \<Rightarrow> string) \<Rightarrow> string option \<Rightarrow> string" where
  "getParentBlockHash keccak blockNumberHex =
    (let blockNumber = (case blockNumberHex of None \<Rightarrow> None | Some h \<Rightarrow> parseInt16 h);
         parentBlockHex = intToString16 (map_option (\<lambda>n. n - 1) blockNumber)
     in blockHexToHash keccak parentBlockHex)"

section \<open>Indexed documents\<close>

text \<open>
  The search backend returns documents whose \<open>@raw\<close> part is a receipt; every query of
  the handlers selects on a field of \<open>@raw\<close>, so every hit has that part. Numbers of the
  index (block numbers, positions, gas counters) are natural numbers. A field is optional
  where the function that reads it tests for its absence: \<open>logs\<close>, \<open>logsBloom\<close>, \<open>errors\<close> and
  \<open>v\<close>, and \<open>itxs\<close>, which \<open>getTracesForTrx\<close> and \<open>trace_filter\<close> test before they read it. The
  \<open>logIndex\<close> of a stored log is not part of the index; the log filter assigns it before the
  log object is built.
\<close>

record raw_log =
  log_address :: string
  log_data :: string
  log_topics :: "string list"
  log_logIndex :: nat

record itx =
  itx_callType :: string
  itx_from :: string
  itx_to :: string
  itx_gas :: string
  itx_gasUsed :: string
  itx_input :: string
  itx_output :: string
  itx_value :: string
  itx_subtraces :: nat
  itx_traceAddress :: "nat list"
  itx_type :: string

record raw_receipt =
  r_hash :: string
  r_block_hash :: string
  r_block :: nat
  r_trx_index :: nat
  r_from :: string
  r_to :: string
  r_value :: string
  r_input_data :: string
  r_output :: string
  r_nonce :: nat
  r_gas_limit :: nat
  r_gasused :: nat
  r_gasusedblock :: nat
  r_charged_gas_price :: nat
  r_logsBloom :: "string option"
  r_logs :: "raw_log list option"
  r_itxs :: "itx list option"
  r_errors :: "string list option"
  r_v :: "string option"
  r_r :: string
  r_s :: string

text \<open>
  A document (\<open>_source\<close>) of the action index. \<open>d_timestamp\<close> is the number that
  \<open>new Date(doc['@timestamp'] + 'Z').getTime() / 1000 | 0\<close> gives.
\<close>

record doc =
  d_raw :: raw_receipt
  d_timestamp :: nat
  d_signatures :: "string list"
  d_trx_id :: string
  d_global_sequence :: nat

record EthLog =
  el_address :: string
  el_blockHash :: string
  el_blockNumber :: string
  el_data :: string
  el_logIndex :: string
  el_removed :: "bool option"
  el_topics :: "string list"
  el_transactionHash :: string
  el_transactionIndex :: string

section \<open>Filter engine\<close>

text \<open>
  A filter value is \<open>null\<close>, a string or a list whose entries are strings or \<open>null\<close>.
\<close>

datatype filter_val = FNull | FStr string | FArr "string option list"

text \<open>The common tail of \<open>removeZeroHexFromFilter\<close>, applied to a non-empty string.\<close>

definition noPrefixTrim :: "bool \<Rightarrow> string \<Rightarrow> string" where
  "noPrefixTrim trimLeftZeros f =
    (let noPrefix = toLowerCase (strip0x f)
     in if trimLeftZeros then stripZeroPairs noPrefix else noPrefix)"

fun removeZeroHexFromFilter :: "filter_val \<Rightarrow> bool \<Rightarrow> filter_val" where
  "removeZeroHexFromFilter FNull trimLeftZeros = FNull"
| "removeZeroHexFromFilter (FStr s) trimLeftZeros =
     (if s = [] then FStr s else FStr (noPrefixTrim trimLeftZeros s))"
| "removeZeroHexFromFilter (FArr fs) trimLeftZeros =
     FArr (map (\<lambda>f. case f of
                  None \<Rightarrow> None
                | Some s \<Rightarrow> if s = [] then Some s else Some (noPrefixTrim trimLeftZeros s)) fs)"

text \<open>
  The argument of \<open>includes\<close> in \<open>hasTopics\<close> is \<open>topics[index]\<close>: \<open>None\<close> is \<open>undefined\<close> (the
  log has no topic there), \<open>Some None\<close> is \<open>null\<close>. \<open>String.prototype.includes\<close> turns its
  argument into text; \<open>Array.prototype.includes\<close> compares entries, and no entry of a filter
  list is \<open>undefined\<close>.
\<close>

definition argText :: "string option option \<Rightarrow> string" where
  "argText x = (case x of None \<Rightarrow> ''undefined'' | Some None \<Rightarrow> ''null'' | Some (Some s) \<Rightarrow> s)"

fun jsIncludes :: "filter_val \<Rightarrow> string option option \<Rightarrow> bool" where
  "jsIncludes (FStr s) x = includesStr s (argText x)"
| "jsIncludes (FArr fs) x = (case x of None \<Rightarrow> False | Some e \<Rightarrow> e \<in> set fs)"
| "jsIncludes FNull x = False"

definition strictEq :: "string option option \<Rightarrow> filter_val \<Rightarrow> bool" where
  "strictEq x topic = (case (x, topic) of
      (Some (Some s), FStr t) \<Rightarrow> s = t
    | (Some None, FNull) \<Rightarrow> True
    | _ \<Rightarrow> False)"

text \<open>The loop of \<open>hasTopics\<close> over \<open>topicsFilter.entries()\<close>, pushing one flag per position.\<close>

fun hasTopicsLoop :: "string option list \<Rightarrow> (nat \<times> filter_val) list \<Rightarrow> bool list \<Rightarrow> bool list" where
  "hasTopicsLoop topics [] topicsFiltered = topicsFiltered"
| "hasTopicsLoop topics ((index, topic) # rest) topicsFiltered =
     hasTopicsLoop topics rest
       (if topic = FNull then topicsFiltered @ [True]
        else if jsIncludes topic (nthOpt topics index) then topicsFiltered @ [True]
        else if strictEq (nthOpt topics index) topic then topicsFiltered @ [True]
        else topicsFiltered @ [False])"

definition arrayOf :: "filter_val \<Rightarrow> string option list" where
  "arrayOf f = (case f of FArr xs \<Rightarrow> xs | _ \<Rightarrow> [])"

definition hasTopics :: "string list \<Rightarrow> filter_val list \<Rightarrow> bool" where
  "hasTopics topics topicsFilter =
    (let topics1 = arrayOf (removeZeroHexFromFilter (FArr (map Some topics)) True);
         topicsFilter1 = map (\<lambda>t. removeZeroHexFromFilter t True) topicsFilter;
         topicsFiltered = hasTopicsLoop topics1 (enumerate 0 topicsFilter1) []
     in list_all (\<lambda>t. t = True) topicsFiltered)"

text \<open>
  \<open>logFilterMatch\<close>: \<open>addressFilter\<close> is absent (\<open>None\<close>), a string or a list of strings; an
  empty string is falsy, a list never is.
\<close>

definition truthyFilter :: "filter_val option \<Rightarrow> bool" where
  "truthyFilter f = (case f of None \<Rightarrow> False | Some FNull \<Rightarrow> False
                     | Some (FStr s) \<Rightarrow> s \<noteq> [] | Some (FArr xs) \<Rightarrow> True)"

text \<open>
  The address test of \<open>logFilterMatch\<close>: true when the log is filtered out by a (truthy)
  \<open>addressFilter\<close>.
\<close>

definition addressFilteredOut :: "raw_log \<Rightarrow> filter_val \<Rightarrow> bool" where
  "addressFilteredOut log addressFilter =
    (let thisAddr = removeZeroHexFromFilter (FStr (toLowerCase (log_address log))) True;
         addressFilter1 = removeZeroHexFromFilter addressFilter True
     in case addressFilter1 of
          FArr xs \<Rightarrow> \<not> jsIncludes (FArr xs) (case thisAddr of FStr a \<Rightarrow> Some (Some a) | _ \<Rightarrow> None)
        | _ \<Rightarrow> thisAddr \<noteq> addressFilter1)"

definition logFilterMatch :: "raw_log \<Rightarrow> filter_val option \<Rightarrow> filter_val list option \<Rightarrow> bool" where
  "logFilterMatch log addressFilter topicsFilter =
    (case (if truthyFilter addressFilter then addressFilter else None) of
       Some af \<Rightarrow>
         if addressFilteredOut log af then False
         else (case topicsFilter of
                 None \<Rightarrow> True
               | Some tf \<Rightarrow> if \<not> hasTopics (log_topics log) tf then False else True)
     | None \<Rightarrow>
         (case topicsFilter of
            None \<Rightarrow> True
          | Some tf \<Rightarrow> if \<not> hasTopics (log_topics log) tf then False else True))"

definition makeLogObject :: "(string \<Rightarrow> string) \<Rightarrow> doc \<Rightarrow> raw_log \<Rightarrow> bool \<Rightarrow> EthLog" where
  "makeLogObject keccak rawActionDocument log forSubscription =
    (let baseLogObj = \<lparr>
           el_address = toChecksumAddress keccak (''0x'' @ log_address log),
           el_blockHash = ''0x'' @ r_block_hash (d_raw rawActionDocument),
           el_blockNumber = numToHex (r_block (d_raw rawActionDocument)),
           el_data = ''0x'' @ log_data log,
           el_logIndex = numToHex (log_logIndex log),
           el_removed = None,
           el_topics = map (\<lambda>t. ''0x'' @ padStart 64 (CHR ''0'') t) (log_topics log),
           el_transactionHash = r_hash (d_raw rawActionDocument),
           el_transactionIndex = numToHex (r_trx_index (d_raw rawActionDocument)) \<rparr>
     in if forSubscription then baseLogObj else baseLogObj\<lparr> el_removed := Some False \<rparr>)"

section \<open>The eth_getLogs handler\<close>

datatype js_error = Error string | TypeError string

text \<open>A block parameter of a filter object is a string or a number.\<close>

datatype block_param = BStr string | BNum int

record log_filter =
  f_address :: "filter_val option"
  f_topics :: "filter_val list option"
  f_blockHash :: "string option"
  f_fromBlock :: "block_param option"
  f_toBlock :: "block_param option"

definition truthyStr :: "string option \<Rightarrow> bool" where
  "truthyStr s = (case s of None \<Rightarrow> False | Some t \<Rightarrow> t \<noteq> [])"

definition truthyBlock :: "block_param option \<Rightarrow> bool" where
  "truthyBlock b = (case b of None \<Rightarrow> False | Some (BStr s) \<Rightarrow> s \<noteq> [] | Some (BNum n) \<Rightarrow> n \<noteq> 0)"

definition startsWith0x :: "string \<Rightarrow> bool" where
  "startsWith0x s = prefix ''0x'' s"

text \<open>
  \<open>toBlockNumber\<close>; \<open>indexedHead\<close> is what \<open>getCurrentBlockNumber(true)\<close> answers, the hex
  number of the last indexed block.
\<close>

definition toBlockNumber :: "string \<Rightarrow> block_param \<Rightarrow> block_param" where
  "toBlockNumber indexedHead blockParam =
    (if blockParam = BStr ''latest'' \<or> blockParam = BStr ''pending'' then BStr indexedHead
     else if blockParam = BStr ''earliest'' then BStr ''0x0''
     else blockParam)"

text \<open>\<open>typeof(x) == 'string' ? parseInt(x, 16) : x\<close>; \<open>None\<close> is \<open>NaN\<close>.\<close>

definition blockNumberOf :: "block_param \<Rightarrow> int option" where
  "blockNumberOf b = (case b of BStr s \<Rightarrow> parseInt16 s | BNum n \<Rightarrow> Some n)"

definition orLatest :: "block_param option \<Rightarrow> block_param" where
  "orLatest b = (if truthyBlock b then the b else BStr ''latest'')"

text \<open>
  The query handed to the search backend is a conjunction (\<open>bool.must\<close>) of clauses; the
  request adds the result-size cap and the sort order.
\<close>

datatype es_clause =
    Exists string
  | Term string string
  | Range string "int option" "int option"
  | ShouldTerm string "string list"
  | Terms string "string list"

datatype sort_order = Asc | Desc

record es_request =
  q_size :: nat
  q_query :: "es_clause list"
  q_sort :: "(string \<times> sort_order) list"

text \<open>
  Modelled from the spec: the search backend is an external collaborator, not among the
  sources. The spec gives its query contract: term, range and boolean filters, ascending
  or descending sort by an indexed field, and a result-size cap. Which documents of the
  action index satisfy the clauses is the parameter \<open>select\<close> (\<open>None\<close> when the search
  fails); the backend sorts them as the request asks, stably, the first sort entry being
  the major key, and answers at most \<open>size\<close> of them.
\<close>

definition sortField :: "string \<Rightarrow> doc \<Rightarrow> nat" where
  "sortField field d =
    (if field = ''global_sequence'' then d_global_sequence d
     else if field = ''@raw.trx_index'' then r_trx_index (d_raw d)
     else if field = ''@raw.block'' then r_block (d_raw d)
     else 0)"

fun applySort :: "(string \<times> sort_order) list \<Rightarrow> doc list \<Rightarrow> doc list" where
  "applySort [] ds = ds"
| "applySort ((field, Asc) # rest) ds = sort_key (sortField field) (applySort rest ds)"
| "applySort ((field, Desc) # rest) ds = rev (sort_key (sortField field) (rev (applySort rest ds)))"

definition esSearch :: "(es_clause list \<Rightarrow> doc list option) \<Rightarrow> es_request \<Rightarrow> doc list option" where
  "esSearch select request =
    (case select (q_query request) of
       None \<Rightarrow> None
     | Some ds \<Rightarrow> Some (take (q_size request) (applySort (q_sort request) ds)))"

definition truthyNum :: "int option \<Rightarrow> bool" where
  "truthyNum n = (case n of None \<Rightarrow> False | Some k \<Rightarrow> k \<noteq> 0)"

definition rangeObj :: "int option \<Rightarrow> int option \<Rightarrow> es_clause" where
  "rangeObj fromBlock toBlock =
     Range ''@raw.block'' (if truthyNum fromBlock then fromBlock else None)
                          (if truthyNum toBlock then toBlock else None)"

text \<open>
  The address filter as the handler rewrites it: \<open>0x\<close> removed, lower case. In a list,
  \<open>addr.startsWith\<close> on a \<open>null\<close> entry throws a TypeError.
\<close>

definition lowerNoPrefix :: "string \<Rightarrow> string" where
  "lowerNoPrefix s = (if startsWith0x s then toLowerCase (drop 2 s) else toLowerCase s)"

definition prepareAddress :: "filter_val option \<Rightarrow> js_error + (filter_val option \<times> es_clause list)" where
  "prepareAddress addressFilter =
    (if \<not> truthyFilter addressFilter then Inr (addressFilter, [])
     else case the addressFilter of
       FArr xs \<Rightarrow>
         (if 0 < length xs then
            (if None \<in> set xs then Inl (TypeError ''Cannot read properties of null (reading 'startsWith')'')
             else let ys = map (\<lambda>a. lowerNoPrefix (the a)) xs
                  in Inr (Some (FArr (map Some ys)),
                          [ShouldTerm ''@raw.logs.address'' (filter (\<lambda>a. a \<noteq> []) ys)]))
          else Inr (addressFilter, []))
     | FStr s \<Rightarrow>
         (let a = toLowerCase s;
              a1 = (if startsWith0x a then drop 2 a else a)
          in Inr (Some (FStr a1), [Term ''@raw.logs.address'' a1]))
     | FNull \<Rightarrow> Inr (addressFilter, []))"

definition flatTopicsOf :: "filter_val list \<Rightarrow> string list" where
  "flatTopicsOf topicsFilter =
     concat (map (\<lambda>topic. case topic of
         FNull \<Rightarrow> []
       | FStr s \<Rightarrow> (if s = [] then [] else [lowerNoPrefix s])
       | FArr ors \<Rightarrow> concat (map (\<lambda>orTopic. case orTopic of
             None \<Rightarrow> []
           | Some t \<Rightarrow> (if t = [] then [] else [lowerNoPrefix t])) ors)) topicsFilter)"

definition prepareTopics :: "filter_val list option \<Rightarrow> es_clause list" where
  "prepareTopics topicsFilter =
    (case topicsFilter of
       None \<Rightarrow> []
     | Some tf \<Rightarrow> if 0 < length tf then [Terms ''@raw.logs.topics'' (flatTopicsOf tf)] else [])"

text \<open>The variables that the processing loop reads.\<close>

record logs_ctx =
  c_blockHash :: "string option"
  c_fromBlock :: "int option"
  c_toBlock :: "int option"
  c_addressFilter :: "filter_val option"
  c_topicsFilter :: "filter_val list option"

text \<open>A comparison with \<open>undefined\<close> or \<open>NaN\<close> is false.\<close>

definition numGreater :: "int option \<Rightarrow> nat \<Rightarrow> bool" where
  "numGreater x block = (case x of None \<Rightarrow> False | Some n \<Rightarrow> n > int block)"

definition numLess :: "int option \<Rightarrow> nat \<Rightarrow> bool" where
  "numLess x block = (case x of None \<Rightarrow> False | Some n \<Rightarrow> n < int block)"

definition skippedByBlock :: "logs_ctx \<Rightarrow> doc \<Rightarrow> bool" where
  "skippedByBlock ctx doc =
    (let block = r_block (d_raw doc) in
     if \<not> truthyStr (c_blockHash ctx)
     then numGreater (c_fromBlock ctx) block \<or> numLess (c_toBlock ctx) block
     else the (c_blockHash ctx) \<noteq> r_block_hash (d_raw doc))"

text \<open>The inner loop over the logs of one hit; the state is \<open>results\<close> and \<open>logCount\<close>.\<close>

fun logsLoop :: "(string \<Rightarrow> string) \<Rightarrow> logs_ctx \<Rightarrow> doc \<Rightarrow> raw_log list
                  \<Rightarrow> EthLog list \<times> nat \<Rightarrow> EthLog list \<times> nat" where
  "logsLoop keccak ctx doc [] st = st"
| "logsLoop keccak ctx doc (log # logs) (results, logCount) =
    (if skippedByBlock ctx doc then logsLoop keccak ctx doc logs (results, logCount)
     else if \<not> logFilterMatch log (c_addressFilter ctx) (c_topicsFilter ctx)
       then logsLoop keccak ctx doc logs (results, logCount)
     else logsLoop keccak ctx doc logs
            (results @ [makeLogObject keccak doc (log\<lparr> log_logIndex := logCount \<rparr>) False],
             logCount + 1))"

fun hitsLoop :: "(string \<Rightarrow> string) \<Rightarrow> logs_ctx \<Rightarrow> doc list
                  \<Rightarrow> EthLog list \<times> nat \<Rightarrow> EthLog list \<times> nat" where
  "hitsLoop keccak ctx [] st = st"
| "hitsLoop keccak ctx (hit # hits) st =
    hitsLoop keccak ctx hits
      (case r_logs (d_raw hit) of
         None \<Rightarrow> st
       | Some logs \<Rightarrow> logsLoop keccak ctx hit logs st)"

text \<open>
  The query preparation of the handler: it throws, or gives the clauses of the query and
  the variables for the processing loop.
\<close>

definition prepareLogsQuery :: "string \<Rightarrow> log_filter \<Rightarrow> js_error + (es_clause list \<times> logs_ctx)" where
  "prepareLogsQuery indexedHead params =
    (let must0 = [Exists ''@raw.logs''];
         blockHash0 = f_blockHash params
     in if truthyStr blockHash0 \<and> (truthyBlock (f_fromBlock params) \<or> truthyBlock (f_toBlock params))
        then Inl (Error ''fromBlock/toBlock are not allowed with blockHash query'')
        else
          let blockHash = (if truthyStr blockHash0
                           then (if startsWith0x (the blockHash0) then Some (drop 2 (the blockHash0))
                                 else blockHash0)
                           else blockHash0);
              fromBlock = (if truthyStr blockHash0 then None
                           else blockNumberOf (toBlockNumber indexedHead (orLatest (f_fromBlock params))));
              toBlock = (if truthyStr blockHash0 then None
                         else blockNumberOf (toBlockNumber indexedHead (orLatest (f_toBlock params))));
              must1 = must0 @ (if truthyStr blockHash0 then [Term ''@raw.block_hash'' (the blockHash)]
                               else [rangeObj fromBlock toBlock])
          in case prepareAddress (f_address params) of
               Inl e \<Rightarrow> Inl e
             | Inr (addressFilter, addressClauses) \<Rightarrow>
                 Inr (must1 @ addressClauses @ prepareTopics (f_topics params),
                      \<lparr> c_blockHash = blockHash, c_fromBlock = fromBlock, c_toBlock = toBlock,
                        c_addressFilter = addressFilter, c_topicsFilter = f_topics params \<rparr>))"

text \<open>
  The handler: preparation, search, processing. The search asks for at most 2000 hits,
  sorted by \<open>global_sequence\<close> ascending. A failure of the search (or of the processing) is
  caught and answers the empty list.
\<close>

definition logsRequest :: "es_clause list \<Rightarrow> es_request" where
  "logsRequest queryBody =
     \<lparr> q_size = 2000, q_query = queryBody, q_sort = [(''global_sequence'', Asc)] \<rparr>"

definition eth_getLogs :: "(string \<Rightarrow> string) \<Rightarrow> (es_clause list \<Rightarrow> doc list option) \<Rightarrow> string
                            \<Rightarrow> log_filter \<Rightarrow> js_error + EthLog list" where
  "eth_getLogs keccak select indexedHead params =
    (case prepareLogsQuery indexedHead params of
       Inl e \<Rightarrow> Inl e
     | Inr (queryBody, ctx) \<Rightarrow>
         (case esSearch select (logsRequest queryBody) of
            None \<Rightarrow> Inr []
          | Some hits \<Rightarrow> Inr (fst (hitsLoop keccak ctx hits ([], 0)))))"

section \<open>Object reconstruction engine\<close>

subsection \<open>Bloom filter\<close>

text \<open>
  Modelled from the spec: the class \<open>Bloom\<close> (module \<open>bloom\<close>) is not among the sources. The
  spec describes the logs bloom as a bit vector that is OR-combined across a block; it is
  2048 bits wide, as \<open>EMPTY_LOGS\<close> (512 hex digits) shows. \<open>new Bloom()\<close> is the zero vector,
  \<open>new Bloom(Buffer.from(h, "hex"))\<close> the vector that the hex digits \<open>h\<close> write,
  \<open>a.or(b)\<close> the bitwise OR, and \<open>bitvector.toString("hex")\<close> its 512 hex digits.
\<close>

type_synonym bloom = "2048 word"

definition newBloom :: bloom where
  "newBloom = 0"

definition bloomFromHex :: "string \<Rightarrow> bloom" where
  "bloomFromHex h = word_of_nat (hexValue (takeWhile isHexDigit h))"

definition bloomOr :: "bloom \<Rightarrow> bloom \<Rightarrow> bloom" where
  "bloomOr a b = a OR b"

definition bitvectorHex :: "bloom \<Rightarrow> string" where
  "bitvectorHex b = padStart 512 (CHR ''0'') (toString16 (unat b))"

subsection \<open>Signature recovery\<close>

text \<open>
  What the engine asks of its collaborators: the Keccak-256 digest, the signature lookup
  in the action index (\<open>getSignature\<close>, \<open>null\<close> when the search fails), the decomposition of
  a serialized signature into recovery id and the hex digits of \<open>r\<close> and \<open>s\<close>
  (\<open>Signature.fromString\<close> of eosjs-ecc), and \<open>Number(x).toString(16)\<close> on a string field.
\<close>

record ext =
  x_keccak :: "string \<Rightarrow> string"
  x_getSignature :: "string \<Rightarrow> string option"
  x_sigParts :: "string option \<Rightarrow> nat \<times> string \<times> string"
  x_numberToString16 :: "string \<Rightarrow> string"

record vrs =
  sig_v :: string
  sig_r :: string
  sig_s :: string

definition getVRS :: "ext \<Rightarrow> doc \<Rightarrow> vrs" where
  "getVRS x receiptDoc =
    (let receipt = d_raw receiptDoc;
         sigString = (if 0 < length (d_signatures receiptDoc)
                      then Some (hd (d_signatures receiptDoc))
                      else x_getSignature x (d_trx_id receiptDoc))
     in case r_v receipt of
          None \<Rightarrow>
            (case x_sigParts x sigString of (i, rHex, sHex) \<Rightarrow>
               \<lparr> sig_v = ''0x'' @ padStart 64 (CHR ''0'') (toString16 i),
                 sig_r = ''0x'' @ padStart 64 (CHR ''0'') rHex,
                 sig_s = ''0x'' @ sHex \<rparr>)
        | Some v \<Rightarrow>
            \<lparr> sig_v = ''0x'' @ v, sig_r = ''0x'' @ r_r receipt, sig_s = ''0x'' @ r_s receipt \<rparr>)"

subsection \<open>reconstructBlockFromReceipts\<close>

record tx_object =
  tx_blockHash :: string
  tx_blockNumber :: string
  tx_from :: string
  tx_gas :: string
  tx_gasPrice :: string
  tx_hash :: string
  tx_input :: string
  tx_nonce :: string
  tx_to :: string
  tx_transactionIndex :: string
  tx_value :: string
  tx_v :: string
  tx_r :: string
  tx_s :: string

datatype tx_entry = TxHash string | TxFull tx_object

text \<open>The variables of the loop over the receipts.\<close>

record recon_state =
  rs_blockHash :: "string option"
  rs_blockHex :: "string option"
  rs_gasLimit :: nat
  rs_gasUsedBlock :: nat
  rs_timestamp :: "nat option"
  rs_bloom :: bloom
  rs_trxs :: "tx_entry list"

definition reconInit :: recon_state where
  "reconInit = \<lparr> rs_blockHash = None, rs_blockHex = None, rs_gasLimit = 0, rs_gasUsedBlock = 0,
                 rs_timestamp = None, rs_bloom = newBloom, rs_trxs = [] \<rparr>"

definition falsyNat :: "nat option \<Rightarrow> bool" where
  "falsyNat n = (case n of None \<Rightarrow> True | Some k \<Rightarrow> k = 0)"

definition reconStep :: "ext \<Rightarrow> bool \<Rightarrow> recon_state \<Rightarrow> doc \<Rightarrow> recon_state" where
  "reconStep x full st receiptDoc =
    (let sig = getVRS x receiptDoc;
         receipt = d_raw receiptDoc;
         gasLimit = rs_gasLimit st + r_gas_limit receipt;
         trxGasUsedBlock = r_gasusedblock receipt;
         gasUsedBlock = (if trxGasUsedBlock > rs_gasUsedBlock st then trxGasUsedBlock
                         else rs_gasUsedBlock st);
         blockHash = (if \<not> truthyStr (rs_blockHash st) then ''0x'' @ r_block_hash receipt
                      else the (rs_blockHash st));
         blockHex = (if \<not> truthyStr (rs_blockHex st) then ''0x'' @ toString16 (r_block receipt)
                     else the (rs_blockHex st));
         timestamp = (if falsyNat (rs_timestamp st) then Some (d_timestamp receiptDoc)
                      else rs_timestamp st);
         bloom = (if truthyStr (r_logsBloom receipt)
                  then bloomOr (rs_bloom st) (bloomFromHex (the (r_logsBloom receipt)))
                  else rs_bloom st);
         trx = (if \<not> full then TxHash (r_hash receipt)
                else TxFull \<lparr>
                  tx_blockHash = blockHash,
                  tx_blockNumber = blockHex,
                  tx_from = toChecksumAddress (x_keccak x) (r_from receipt),
                  tx_gas = ''0x'' @ toString16 (r_gasused receipt),
                  tx_gasPrice = ''0x'' @ toString16 (r_charged_gas_price receipt),
                  tx_hash = r_hash receipt,
                  tx_input = r_input_data receipt,
                  tx_nonce = ''0x'' @ toString16 (r_nonce receipt),
                  tx_to = toChecksumAddress (x_keccak x) (r_to receipt),
                  tx_transactionIndex = ''0x'' @ toString16 (r_trx_index receipt),
                  tx_value = ''0x'' @ x_numberToString16 x (r_value receipt),
                  tx_v = sig_v sig, tx_r = sig_r sig, tx_s = sig_s sig \<rparr>)
     in \<lparr> rs_blockHash = Some blockHash, rs_blockHex = Some blockHex, rs_gasLimit = gasLimit,
          rs_gasUsedBlock = gasUsedBlock, rs_timestamp = timestamp, rs_bloom = bloom,
          rs_trxs = rs_trxs st @ [trx] \<rparr>)"

fun reconLoop :: "ext \<Rightarrow> bool \<Rightarrow> doc list \<Rightarrow> recon_state \<Rightarrow> recon_state" where
  "reconLoop x full [] st = st"
| "reconLoop x full (receiptDoc # receipts) st = reconLoop x full receipts (reconStep x full st receiptDoc)"

text \<open>
  The block object; the constant fields copied from \<open>BLOCK_TEMPLATE\<close> are left out. With no
  receipt, \<open>hash\<close> and \<open>number\<close> stay \<open>undefined\<close> and the timestamp prints as \<open>0xundefined\<close>.
\<close>

record block =
  blk_gasUsed :: string
  blk_parentHash :: string
  blk_hash :: "string option"
  blk_logsBloom :: string
  blk_number :: "string option"
  blk_timestamp :: string
  blk_transactions :: "tx_entry list"

definition reconstructBlockFromReceipts :: "ext \<Rightarrow> doc list \<Rightarrow> bool \<Rightarrow> block" where
  "reconstructBlockFromReceipts x receipts full =
    (let st = reconLoop x full receipts reconInit;
         logsBloom = ''0x'' @ bitvectorHex (rs_bloom st)
     in \<lparr> blk_gasUsed = numToHex (rs_gasUsedBlock st),
          blk_parentHash = getParentBlockHash (x_keccak x) (rs_blockHex st),
          blk_hash = rs_blockHash st,
          blk_logsBloom = logsBloom,
          blk_number = rs_blockHex st,
          blk_timestamp = ''0x'' @ (case rs_timestamp st of None \<Rightarrow> ''undefined''
                                    | Some t \<Rightarrow> toString16 t),
          blk_transactions = rs_trxs st \<rparr>)"

section \<open>Trace builder\<close>

definition toOpname :: "string \<Rightarrow> string" where
  "toOpname opcode =
    (if opcode = ''f0'' then ''create''
     else if opcode = ''f1'' then ''call''
     else if opcode = ''f4'' then ''delegatecall''
     else if opcode = ''f5'' then ''create2''
     else if opcode = ''fa'' then ''staticcall''
     else if opcode = ''ff'' then ''selfdestruct''
     else ''unkown'')"

record trace_action =
  ta_callType :: string
  ta_from :: string
  ta_gas :: string
  ta_input :: string
  ta_to :: string
  ta_value :: string

record trace_result =
  tres_gasUsed :: string
  tres_output :: string

text \<open>The linkage fields that only a filter-mode trace carries.\<close>

record trace_link =
  tl_blockHash :: string
  tl_blockNumber :: nat
  tl_transactionHash :: string
  tl_transactionPosition :: nat

record trace =
  t_action :: trace_action
  t_result :: trace_result
  t_subtraces :: nat
  t_traceAddress :: "nat list"
  t_type :: string
  t_error :: "string option"
  t_link :: "trace_link option"

definition linkOf :: "raw_receipt \<Rightarrow> trace_link" where
  "linkOf receipt = \<lparr> tl_blockHash = ''0x'' @ r_block_hash receipt,
                       tl_blockNumber = r_block receipt,
                       tl_transactionHash = r_hash receipt,
                       tl_transactionPosition = r_trx_index receipt \<rparr>"

text \<open>
  \<open>receipt.itxs.length\<close> throws a TypeError when the receipt has no \<open>itxs\<close>.
\<close>

definition noItxsError :: js_error where
  "noItxsError = TypeError ''Cannot read properties of undefined (reading 'length')''"

definition makeInitialTrace :: "(string \<Rightarrow> string) \<Rightarrow> raw_receipt \<Rightarrow> bool \<Rightarrow> js_error + trace" where
  "makeInitialTrace keccak receipt adHoc =
    (case r_itxs receipt of
       None \<Rightarrow> Inl noItxsError
     | Some itxs \<Rightarrow>
        (let gas = ''0x'' @ toString16 (r_gasused receipt);
             trace0 = \<lparr>
               t_action = \<lparr> ta_callType = ''call'',
                            ta_from = toChecksumAddress keccak (r_from receipt),
                            ta_gas = gas,
                            ta_input = r_input_data receipt,
                            ta_to = toChecksumAddress keccak (r_to receipt),
                            ta_value = ''0x'' @ r_value receipt \<rparr>,
               t_result = \<lparr> tres_gasUsed = gas, tres_output = ''0x'' @ r_output receipt \<rparr>,
               t_subtraces = length itxs,
               t_traceAddress = [],
               t_type = ''call'',
               t_error = None,
               t_link = None \<rparr>;
             trace1 = (case r_errors receipt of
                         None \<Rightarrow> trace0
                       | Some errs \<Rightarrow> if 0 < length errs then trace0\<lparr> t_error := Some (hd errs) \<rparr>
                                      else trace0)
         in Inr (if \<not> adHoc then trace1\<lparr> t_link := Some (linkOf receipt) \<rparr> else trace1)))"

definition makeTrace :: "(string \<Rightarrow> string) \<Rightarrow> raw_receipt \<Rightarrow> itx \<Rightarrow> bool \<Rightarrow> trace" where
  "makeTrace keccak receipt itx adHoc =
    (let trace0 = \<lparr>
           t_action = \<lparr> ta_callType = toOpname (itx_callType itx),
                        ta_from = toChecksumAddress keccak (itx_from itx),
                        ta_gas = ''0x'' @ itx_gas itx,
                        ta_input = ''0x'' @ itx_input itx,
                        ta_to = toChecksumAddress keccak (itx_to itx),
                        ta_value = ''0x'' @ itx_value itx \<rparr>,
           t_result = \<lparr> tres_gasUsed = ''0x'' @ itx_gasUsed itx,
                        tres_output = ''0x'' @ itx_output itx \<rparr>,
           t_subtraces = itx_subtraces itx,
           t_traceAddress = itx_traceAddress itx,
           t_type = itx_type itx,
           t_error = None,
           t_link = None \<rparr>
     in if \<not> adHoc then trace0\<lparr> t_link := Some (linkOf receipt) \<rparr> else trace0)"

text \<open>The loop of \<open>makeTraces\<close> pushes one trace per internal call onto \<open>results\<close>.\<close>

fun makeTracesLoop :: "(string \<Rightarrow> string) \<Rightarrow> raw_receipt \<Rightarrow> bool \<Rightarrow> itx list \<Rightarrow> trace list \<Rightarrow> trace list" where
  "makeTracesLoop keccak receipt adHoc [] results = results"
| "makeTracesLoop keccak receipt adHoc (itx # itxs) results =
     makeTracesLoop keccak receipt adHoc itxs (results @ [makeTrace keccak receipt itx adHoc])"

text \<open>
  In ad-hoc mode the list is wrapped; \<open>stateDiff\<close> and \<open>vmTrace\<close> are \<open>null\<close> (\<open>None\<close>).
  \<open>makeTraces\<close> throws what \<open>makeInitialTrace\<close> throws; the loop over \<open>receipt['itxs']\<close> is
  reached only when the list is there.
\<close>

record adhoc_envelope =
  ah_output :: string
  ah_stateDiff :: "string option"
  ah_trace :: "trace list"
  ah_vmTrace :: "string option"

datatype traces = FilterTraces "trace list" | AdHocTraces adhoc_envelope

definition makeTraces :: "(string \<Rightarrow> string) \<Rightarrow> raw_receipt \<Rightarrow> bool \<Rightarrow> js_error + traces" where
  "makeTraces keccak receipt adHoc =
    (case makeInitialTrace keccak receipt adHoc of
       Inl e \<Rightarrow> Inl e
     | Inr initialTrace \<Rightarrow>
        (case r_itxs receipt of
           None \<Rightarrow> Inl (TypeError ''receipt.itxs is not iterable'')
         | Some itxs \<Rightarrow>
            (let results = makeTracesLoop keccak receipt adHoc itxs [initialTrace]
             in if \<not> adHoc then Inr (FilterTraces results)
                else Inr (AdHocTraces \<lparr> ah_output = ''0x'' @ r_output receipt, ah_stateDiff = None,
                                        ah_trace = results, ah_vmTrace = None \<rparr>))))"

subsection \<open>The trace_block handler\<close>




section \<open>Method registry and dispatcher\<close>

subsection \<open>JSON values\<close>

text \<open>
  A decoded payload is a JSON value; \<open>JUndefined\<close> is what reading a missing property gives.
  A number is given by its value, an integer here. When a key occurs twice in an object the
  last one counts, as \<open>JSON.parse\<close> has it. A thrown value is described by its properties in
  the same way.
\<close>

datatype json =
    JUndefined
  | JNull
  | JBool bool
  | JNum int
  | JStr string
  | JArr "json list"
  | JObj "(string \<times> json) list"

definition truthy :: "json \<Rightarrow> bool" where
  "truthy v = (case v of JUndefined \<Rightarrow> False | JNull \<Rightarrow> False | JBool b \<Rightarrow> b
               | JNum n \<Rightarrow> n \<noteq> 0 | JStr s \<Rightarrow> s \<noteq> [] | JArr xs \<Rightarrow> True | JObj kvs \<Rightarrow> True)"

definition nullish :: "json \<Rightarrow> bool" where
  "nullish v = (v = JUndefined \<or> v = JNull)"

text \<open>
  \<open>v.k\<close> for the property names the dispatcher reads (none of them is a property of a
  string, a number, a boolean or an array), on a value that is not \<open>null\<close> or \<open>undefined\<close>.
\<close>

definition getProp :: "json \<Rightarrow> string \<Rightarrow> json" where
  "getProp v k = (case v of
      JObj kvs \<Rightarrow> (case map_of (rev kvs) k of None \<Rightarrow> JUndefined | Some w \<Rightarrow> w)
    | _ \<Rightarrow> JUndefined)"

text \<open>\<open>v?.k\<close>\<close>

definition optGet :: "json \<Rightarrow> string \<Rightarrow> json" where
  "optGet v k = (if nullish v then JUndefined else getProp v k)"

text \<open>\<open>v[0]\<close>; reading an index of \<open>null\<close> or \<open>undefined\<close> throws (\<open>None\<close>).\<close>

definition index0 :: "json \<Rightarrow> json option" where
  "index0 v = (case v of
      JUndefined \<Rightarrow> None
    | JNull \<Rightarrow> None
    | JArr xs \<Rightarrow> (case xs of [] \<Rightarrow> Some JUndefined | x # _ \<Rightarrow> Some x)
    | JStr s \<Rightarrow> (case s of [] \<Rightarrow> Some JUndefined | c # _ \<Rightarrow> Some (JStr [c]))
    | JObj kvs \<Rightarrow> Some (getProp v ''0'')
    | _ \<Rightarrow> Some JUndefined)"

fun joinComma :: "string list \<Rightarrow> string" where
  "joinComma [] = []"
| "joinComma [s] = s"
| "joinComma (s # t # r) = s @ '','' @ joinComma (t # r)"

text \<open>
  The text of a value inside a template literal (\<open>ToString\<close>); \<open>None\<close> when the conversion
  throws a TypeError. How the runtime prints a number (digits, or exponent form from
  \<open>1e21\<close> on) is the parameter \<open>numberText\<close>. An array prints its entries joined by commas,
  \<open>null\<close> and \<open>undefined\<close> entries as nothing. An object of a decoded payload prints as
  \<open>[object Object]\<close>, unless it has a key \<open>toString\<close>: that value is not callable, and
  neither its \<open>valueOf\<close> nor the inherited one gives a primitive, so the conversion throws.
\<close>

fun templateText :: "(int \<Rightarrow> string) \<Rightarrow> json \<Rightarrow> string option"
  and elementTexts :: "(int \<Rightarrow> string) \<Rightarrow> json list \<Rightarrow> string list option" where
  "templateText numberText JUndefined = Some ''undefined''"
| "templateText numberText JNull = Some ''null''"
| "templateText numberText (JBool b) = Some (if b then ''true'' else ''false'')"
| "templateText numberText (JNum n) = Some (numberText n)"
| "templateText numberText (JStr s) = Some s"
| "templateText numberText (JArr xs) = map_option joinComma (elementTexts numberText xs)"
| "templateText numberText (JObj kvs) =
     (if ''toString'' \<in> fst ` set kvs then None else Some ''[object Object]'')"
| "elementTexts numberText [] = Some []"
| "elementTexts numberText (x # xs) =
     (case (if x = JUndefined \<or> x = JNull then Some [] else templateText numberText x) of
        None \<Rightarrow> None
      | Some t \<Rightarrow> map_option (Cons t) (elementTexts numberText xs))"

subsection \<open>jsonRPC2Error\<close>

text \<open>The reply object, when there is one, keeps the HTTP status code.\<close>

datatype reply = NoReply | Reply nat

definition setStatus :: "reply \<Rightarrow> nat \<Rightarrow> reply" where
  "setStatus reply status = (case reply of NoReply \<Rightarrow> NoReply | Reply old \<Rightarrow> Reply status)"

definition jsonRPC2Error :: "reply \<Rightarrow> string \<Rightarrow> json \<Rightarrow> string \<Rightarrow> int option \<Rightarrow> reply \<times> json" where
  "jsonRPC2Error reply type requestId message code =
    (let errorCode0 = code;
         (reply1, errorCode) =
           (if type = ''InvalidRequest'' then (setStatus reply 400, - 32600)
            else if type = ''MethodNotFound'' then (setStatus reply 404, - 32601)
            else if type = ''ParseError'' then (setStatus reply 400, - 32700)
            else if type = ''InvalidParams'' then (setStatus reply 400, - 32602)
            else if type = ''InternalError'' then (setStatus reply 500, - 32603)
            else (setStatus reply 500, - 32603));
         errorResponse = JObj [(''jsonrpc'', JStr ''2.0''), (''id'', requestId),
                               (''error'', JObj [(''code'', JNum errorCode), (''message'', JStr message)])]
     in (reply1, errorResponse))"

subsection \<open>doRpcMethod\<close>

text \<open>
  What a handler throws is a \<open>TransactionError\<close> or any other value. A handler is a
  function of the request's \<open>params\<close> that returns a result or throws; the registry maps
  method names to handlers. The log lines that the dispatcher prints are not modelled.
\<close>

datatype thrown = TransactionError json | Thrown json

type_synonym handler = "json \<Rightarrow> thrown + json"

type_synonym registry = "string \<Rightarrow> handler option"

definition lookupMethod :: "registry \<Rightarrow> json \<Rightarrow> handler option" where
  "lookupMethod methods method = (case method of JStr m \<Rightarrow> methods m | _ \<Rightarrow> None)"

definition EOSIO_ASSERTION_PREFIX :: string where
  "EOSIO_ASSERTION_PREFIX = ''assertion failure with message: ''"

definition typeError :: "string \<Rightarrow> thrown" where
  "typeError msg = Thrown (JObj [(''name'', JStr ''TypeError''), (''message'', JStr msg)])"

text \<open>
  The \<open>catch\<close> block of \<open>doRpcMethod\<close>. It answers an error envelope, or throws itself
  (\<open>Inl\<close>) when the details of a ledger assertion failure cannot be read.
\<close>

definition catchBlock :: "thrown \<Rightarrow> json \<Rightarrow> json \<Rightarrow> thrown + json" where
  "catchBlock e ident jsonrpc =
    (case e of
       TransactionError obj \<Rightarrow>
         (let code = (if truthy (getProp obj ''code'') then getProp obj ''code'' else JNum 3);
              message = getProp obj ''errorMessage'';
              dat = getProp obj ''data'';
              error = JObj [(''code'', code), (''message'', message), (''data'', dat)]
          in Inr (JObj [(''id'', ident), (''jsonrpc'', jsonrpc), (''error'', error)]))
     | Thrown v \<Rightarrow>
         (let err = optGet (optGet v ''json'') ''error'' in
          if optGet err ''code'' = JNum 3050003 then
            (case index0 (optGet err ''details'') of
               None \<Rightarrow> Inl (typeError ''Cannot read properties of undefined (reading '0')'')
             | Some d0 \<Rightarrow>
                 (case optGet d0 ''message'' of
                    JStr message0 \<Rightarrow>
                      (let message = (if prefix EOSIO_ASSERTION_PREFIX message0
                                      then drop (length EOSIO_ASSERTION_PREFIX) message0
                                      else message0);
                           error = JObj [(''code'', JNum 3), (''message'', JStr message)]
                       in Inr (JObj [(''id'', ident), (''jsonrpc'', jsonrpc), (''error'', error)]))
                  | _ \<Rightarrow> Inl (typeError ''message.startsWith is not a function'')))
          else
            (let error = JObj [(''code'', JNum 3), (''message'', optGet v ''message'')]
             in Inr (JObj [(''id'', ident), (''jsonrpc'', jsonrpc), (''error'', error)]))))"

text \<open>
  \<open>doRpcMethod\<close> is an async function: what it throws rejects its promise (\<open>Inl\<close>).
  Destructuring \<open>null\<close> or \<open>undefined\<close> throws a TypeError. The template literals that print
  an unregistered method stand outside the \<open>try\<close>: when the method cannot be turned into
  text they throw, before the reply is touched.
\<close>

definition doRpcMethod :: "(int \<Rightarrow> string) \<Rightarrow> registry \<Rightarrow> json \<Rightarrow> reply
                            \<Rightarrow> reply \<times> (thrown + json)" where
  "doRpcMethod numberText methods jsonRpcRequest reply =
    (if nullish jsonRpcRequest
     then (reply, Inl (typeError ''Cannot destructure property 'jsonrpc' of 'jsonRpcRequest' as it is null.''))
     else
       let jsonrpc0 = getProp jsonRpcRequest ''jsonrpc'';
           ident = getProp jsonRpcRequest ''id'';
           method = getProp jsonRpcRequest ''method'';
           params = getProp jsonRpcRequest ''params'';
           jsonrpc = (if \<not> truthy jsonrpc0 then JStr ''2.0'' else jsonrpc0)
       in if jsonrpc \<noteq> JStr ''2.0''
          then (case jsonRPC2Error reply ''InvalidRequest'' ident ''Invalid JSON RPC'' None of
                  (reply1, errorResponse) \<Rightarrow> (reply1, Inr errorResponse))
          else (case lookupMethod methods method of
                  Some func \<Rightarrow>
                    (case func params of
                       Inr result \<Rightarrow>
                         (reply, Inr (JObj [(''id'', ident), (''jsonrpc'', jsonrpc), (''result'', result)]))
                     | Inl e \<Rightarrow> (reply, catchBlock e ident jsonrpc))
                | None \<Rightarrow>
                    (case templateText numberText method of
                       None \<Rightarrow>
                         (reply, Inl (typeError ''Cannot convert object to primitive value''))
                     | Some methodText \<Rightarrow>
                         (case jsonRPC2Error reply ''MethodNotFound'' ident
                                 (''Invalid method: '' @ methodText) None of
                            (reply1, errorResponse) \<Rightarrow> (reply1, Inr errorResponse)))))"

subsection \<open>doRpcPayload\<close>

text \<open>
  The loop starts one call per request, in order, and keeps the promises in that order.
  \<open>Promise.all\<close> resolves to the array of the results, in the order of the promises, when
  every promise resolves, and rejects when one of them rejects; of several rejections the
  one of the earliest request is taken here.
\<close>

fun batchLoop :: "(int \<Rightarrow> string) \<Rightarrow> registry \<Rightarrow> json list \<Rightarrow> reply \<Rightarrow> (thrown + json) list
                   \<Rightarrow> reply \<times> (thrown + json) list" where
  "batchLoop numberText methods [] reply promises = (reply, promises)"
| "batchLoop numberText methods (request # rest) reply promises =
    (case doRpcMethod numberText methods request reply of
       (reply1, promise) \<Rightarrow> batchLoop numberText methods rest reply1 (promises @ [promise]))"

fun promiseAll :: "(thrown + json) list \<Rightarrow> thrown + json list" where
  "promiseAll [] = Inr []"
| "promiseAll (Inl e # ps) = Inl e"
| "promiseAll (Inr v # ps) = (case promiseAll ps of Inl e \<Rightarrow> Inl e | Inr vs \<Rightarrow> Inr (v # vs))"

text \<open>An empty batch returns \<open>undefined\<close>: there is no response.\<close>

definition doRpcPayload :: "(int \<Rightarrow> string) \<Rightarrow> registry \<Rightarrow> json \<Rightarrow> reply
                             \<Rightarrow> reply \<times> (thrown + json)" where
  "doRpcPayload numberText methods payload reply =
    (case payload of
       JArr requests \<Rightarrow>
         if length requests = 0 then (reply, Inr JUndefined)
         else (case batchLoop numberText methods requests reply [] of
                 (reply1, promises) \<Rightarrow>
                   (case promiseAll promises of
                      Inl e \<Rightarrow> (reply1, Inl e)
                    | Inr responses \<Rightarrow> (reply1, Inr (JArr responses))))
     | _ \<Rightarrow> doRpcMethod numberText methods payload reply)"

section \<open>Notions used to state the properties\<close>

text \<open>A string cut into consecutive pairs of characters; a last single character stays alone.\<close>

fun pairs :: "string \<Rightarrow> string list" where
  "pairs (a # b # r) = [a, b] # pairs r"
| "pairs [a] = [[a]]"
| "pairs [] = []"

text \<open>
  The ABI encoding of \<open>Error(string)\<close> as a hex text: \<open>0x\<close>, the selector, the offset word
  (32), the length word, and the bytes of the message padded with zero bytes to a multiple
  of 32.
\<close>

definition hexByte :: "nat \<Rightarrow> string" where
  "hexByte n = [hexDigit (n div 16), hexDigit (n mod 16)]"

definition hexOfBytes :: "string \<Rightarrow> string" where
  "hexOfBytes msg = concat (map (\<lambda>c. hexByte (of_char c)) msg)"

definition abiWord :: "nat \<Rightarrow> string" where
  "abiWord n = padStart 64 (CHR ''0'') (toString16 n)"

definition abiPadding :: "nat \<Rightarrow> nat" where
  "abiPadding n = (32 - n mod 32) mod 32"

definition abiEncodeRevert :: "string \<Rightarrow> string" where
  "abiEncodeRevert msg =
     ''0x08c379a0'' @ abiWord 32 @ abiWord (length msg) @ hexOfBytes msg
       @ replicate (2 * abiPadding (length msg)) (CHR ''0'')"

text \<open>
  The logs of a hit that the processing loop keeps, and the kept logs of all hits in the
  order of the hits, each with the document it comes from.
\<close>

definition keptLogs :: "logs_ctx \<Rightarrow> doc \<Rightarrow> raw_log list" where
  "keptLogs ctx doc =
    (case r_logs (d_raw doc) of
       None \<Rightarrow> []
     | Some logs \<Rightarrow>
         filter (\<lambda>log. \<not> skippedByBlock ctx doc
                       \<and> logFilterMatch log (c_addressFilter ctx) (c_topicsFilter ctx)) logs)"

definition matchedLogs :: "logs_ctx \<Rightarrow> doc list \<Rightarrow> (doc \<times> raw_log) list" where
  "matchedLogs ctx hits = concat (map (\<lambda>doc. map (Pair doc) (keptLogs ctx doc)) hits)"

definition numberedLog :: "(string \<Rightarrow> string) \<Rightarrow> nat \<times> doc \<times> raw_log \<Rightarrow> EthLog" where
  "numberedLog keccak e =
     (case e of (i, doc, log) \<Rightarrow> makeLogObject keccak doc (log\<lparr> log_logIndex := i \<rparr>) False)"

text \<open>The blooms that the receipts of a block carry.\<close>

definition bloomsCarried :: "doc list \<Rightarrow> string list" where
  "bloomsCarried receipts =
     concat (map (\<lambda>d. case r_logsBloom (d_raw d) of None \<Rightarrow> [] | Some b \<Rightarrow> [b]) receipts)"

text \<open>The flag that the loop of \<open>hasTopics\<close> pushes for one position.\<close>

definition positionFlag :: "string option list \<Rightarrow> nat \<Rightarrow> filter_val \<Rightarrow> bool" where
  "positionFlag topics index topic =
     (topic = FNull \<or> jsIncludes topic (nthOpt topics index) \<or> strictEq (nthOpt topics index) topic)"

subsection \<open>Sample data\<close>

definition sampleKeccak :: "string \<Rightarrow> string" where
  "sampleKeccak s = replicate 64 (CHR ''0'')"

definition sampleExt :: ext where
  "sampleExt = \<lparr> x_keccak = sampleKeccak, x_getSignature = (\<lambda>t. None),
                 x_sigParts = (\<lambda>s. (0, ''0'', ''0'')), x_numberToString16 = (\<lambda>s. ''0'') \<rparr>"

definition sampleLog :: raw_log where
  "sampleLog = \<lparr> log_address = ''d102ce6a4db07d247fcc28f366a623df0938ca9e'', log_data = [],
                 log_topics = [''ddf252ad1be2c89b69c2b068fc378daa952ba7f163c4a11628f55a4df523b3ef''],
                 log_logIndex = 0 \<rparr>"

definition sampleReceipt :: "nat \<Rightarrow> string \<Rightarrow> nat \<Rightarrow> string option \<Rightarrow> raw_receipt" where
  "sampleReceipt blockNum blockHash gasBlock blm =
     \<lparr> r_hash = ''0x'' @ blockHash, r_block_hash = blockHash, r_block = blockNum, r_trx_index = 0,
       r_from = ''0x0000000000000000000000000000000000000001'',
       r_to = ''0x0000000000000000000000000000000000000002'',
       r_value = ''0'', r_input_data = ''0x'', r_output = [], r_nonce = 0, r_gas_limit = 100000,
       r_gasused = 21000, r_gasusedblock = gasBlock, r_charged_gas_price = 0,
       r_logsBloom = blm, r_logs = Some [sampleLog], r_itxs = Some [], r_errors = None,
       r_v = Some ''1b'', r_r = ''01'', r_s = ''02'' \<rparr>"

definition sampleDoc :: "nat \<Rightarrow> string \<Rightarrow> nat \<Rightarrow> string option \<Rightarrow> nat \<Rightarrow> doc" where
  "sampleDoc blockNum blockHash gasBlock blm sq =
     \<lparr> d_raw = sampleReceipt blockNum blockHash gasBlock blm, d_timestamp = 1000,
       d_signatures = [], d_trx_id = ''00'', d_global_sequence = sq \<rparr>"

definition sampleHits :: "doc list" where
  "sampleHits = [sampleDoc 1 ''aa01'' 21000 (Some ''01'') 10,
                 sampleDoc 2 ''aa02'' 50000 (Some ''04'') 20]"

definition sampleSearch :: "es_clause list \<Rightarrow> doc list option" where
  "sampleSearch queryBody = Some (rev sampleHits)"

definition noFilter :: log_filter where
  "noFilter = \<lparr> f_address = None, f_topics = None, f_blockHash = None,
                f_fromBlock = None, f_toBlock = None \<rparr>"

definition sampleMethods :: registry where
  "sampleMethods m = (if m = ''eth_chainId'' then Some (\<lambda>params. Inr (JStr ''0x28'')) else None)"

text \<open>Three receipts of one block; the last one carries no bloom.\<close>

definition sampleBlockReceipts :: "doc list" where
  "sampleBlockReceipts = [sampleDoc 7 ''bb07'' 21000 (Some ''01'') 10,
                          sampleDoc 7 ''bb07'' 50000 (Some ''04'') 11,
                          sampleDoc 7 ''bb07'' 30000 None 12]"

text \<open>
  A stand-in for the number printing of the runtime: decimal digits, which is what the
  runtime prints for an integer of at most 15 digits.
\<close>

fun decimalOfNat :: "nat \<Rightarrow> string" where
  "decimalOfNat n = (if n < 10 then [char_of (48 + n)]
                     else decimalOfNat (n div 10) @ [char_of (48 + n mod 10)])"

declare decimalOfNat.simps [simp del]

definition decimalOfInt :: "int \<Rightarrow> string" where
  "decimalOfInt n = (if n < 0 then ''-'' @ decimalOfNat (nat (- n)) else decimalOfNat (nat n))"


section \<open>Error decoder: properties\<close>

subsection \<open>Hex digits\<close>

lemma of_char_hexDigit:
  "d < 16 \<Longrightarrow> (of_char (hexDigit d) :: nat) = (if d < 10 then 48 + d else 87 + d)"
  by (simp add: hexDigit_def)

lemma hexVal_hexDigit: "d < 16 \<Longrightarrow> hexVal (hexDigit d) = Some d"
  by (simp add: hexVal_def of_char_hexDigit Let_def)

lemma hexVal_SomeD:
  assumes "hexVal c = Some x"
  shows "\<not> isStrWhiteSpace c" "c \<noteq> CHR ''-''" "c \<noteq> CHR ''+''" "c \<noteq> CHR ''x''" "c \<noteq> CHR ''X''"
    "isHexDigit c" "x < 16"
  using assms
  by (auto simp: hexVal_def isStrWhiteSpace_def isHexDigit_def Let_def split: if_splits)

lemma parseInt16_hex_pair:
  assumes "hexVal a = Some x" "hexVal b = Some y"
  shows "fromCharCode (parseInt16 [a, b]) = 16 * x + y"
  using assms hexVal_SomeD[OF assms(1)] hexVal_SomeD[OF assms(2)]
  by (simp add: parseInt16_def Let_def hexValue_def fromCharCode_def)

lemma decode_hexByte: "n < 256 \<Longrightarrow> fromCharCode (parseInt16 (hexByte n)) = n"
proof -
  assume n: "n < 256"
  then have d: "n div 16 < 16" "n mod 16 < 16" by auto
  have "fromCharCode (parseInt16 (hexByte n)) = 16 * (n div 16) + n mod 16"
    unfolding hexByte_def by (intro parseInt16_hex_pair hexVal_hexDigit d)
  then show ?thesis by simp
qed

lemma decode_zero_pair: "fromCharCode (parseInt16 ''00'') = 0"
  using parseInt16_hex_pair[of "CHR ''0''" 0 "CHR ''0''" 0] by (simp add: hexVal_def)

subsection \<open>The decoding loop\<close>

lemma pairs_drop2: "i < length t \<Longrightarrow> pairs (drop i t) = substr t i 2 # pairs (drop (i + 2) t)"
proof -
  assume "i < length t"
  then obtain a r where d: "drop i t = a # r"
    by (cases "drop i t") auto
  have "drop (i + 2) t = drop 2 (drop i t)"
    by (simp add: add.commute)
  with d have r: "drop (i + 2) t = drop 1 r" by simp
  show ?thesis
  proof (cases r)
    case Nil
    with d r show ?thesis by (simp add: substr_def)
  next
    case (Cons b r')
    with d r show ?thesis by (simp add: substr_def)
  qed
qed

lemma parseRevertLoop_pairs:
  "parseRevertLoop t i reason = reason @ map (\<lambda>p. fromCharCode (parseInt16 p)) (pairs (drop i t))"
proof (induction t i reason rule: parseRevertLoop.induct)
  case (1 t i reason)
  show ?case
  proof (cases "i < length t")
    case True
    then show ?thesis
      using "1.IH" by (subst parseRevertLoop.simps) (simp add: pairs_drop2)
  next
    case False
    then show ?thesis by (subst parseRevertLoop.simps) simp
  qed
qed

lemma parseRevertReason_short: "length s < 138 \<Longrightarrow> parseRevertReason s = []"
  by (simp add: parseRevertReason_def)

lemma parseRevertReason_long:
  "138 \<le> length s \<Longrightarrow>
   parseRevertReason s = map (\<lambda>p. fromCharCode (parseInt16 p)) (pairs (drop 138 s))"
  by (auto simp: parseRevertReason_def parseRevertLoop_pairs substr_def)

subsection \<open>ABI-encoded revert strings\<close>

lemma length_toString16: "0 < k \<Longrightarrow> n < 16 ^ k \<Longrightarrow> length (toString16 n) \<le> k"
proof (induction k arbitrary: n)
  case 0
  then show ?case by simp
next
  case (Suc k)
  show ?case
  proof (cases "n < 16")
    case True
    then show ?thesis by (subst toString16.simps) simp
  next
    case False
    then have k: "0 < k" using Suc.prems by (cases k) auto
    have "n div 16 < 16 ^ k" using Suc.prems(2) by (simp add: less_mult_imp_div_less mult.commute)
    from Suc.IH[OF k this] False show ?thesis by (subst toString16.simps) simp
  qed
qed

lemma length_abiWord: "n < 2 ^ 256 \<Longrightarrow> length (abiWord n) = 64"
proof -
  assume "n < 2 ^ 256"
  then have "n < (16::nat) ^ 64" by simp
  then have "length (toString16 n) \<le> 64" by (intro length_toString16) simp_all
  then show ?thesis by (simp add: abiWord_def padStart_def)
qed

lemma pairs_hexOfBytes:
  "pairs (hexOfBytes msg @ rest) = map (\<lambda>c. hexByte (of_char c)) msg @ pairs rest"
  by (induction msg) (simp_all add: hexOfBytes_def hexByte_def)

lemma pairs_zeros: "pairs (replicate (2 * p) (CHR ''0'')) = replicate p ''00''"
  by (induction p) simp_all

lemma decode_after_head:
  assumes "length header = 138"
  shows "parseRevertReason (header @ hexOfBytes msg @ replicate (2 * p) (CHR ''0''))
       = codeUnitsOf msg @ replicate p 0"
proof -
  have "parseRevertReason (header @ hexOfBytes msg @ replicate (2 * p) (CHR ''0''))
      = map (\<lambda>p. fromCharCode (parseInt16 p)) (pairs (hexOfBytes msg @ replicate (2 * p) (CHR ''0'')))"
    using assms by (subst parseRevertReason_long) simp_all
  also have "\<dots> = map (\<lambda>c. fromCharCode (parseInt16 (hexByte (of_char c)))) msg
                 @ map (\<lambda>p. fromCharCode (parseInt16 p)) (replicate p ''00'')"
    by (simp add: pairs_hexOfBytes pairs_zeros comp_def)
  also have "\<dots> = codeUnitsOf msg @ replicate p 0"
    by (simp add: decode_hexByte decode_zero_pair codeUnitsOf_def)
  finally show ?thesis .
qed

lemma decode_abiEncodeRevert:
  assumes "length msg < 2 ^ 256"
  shows "parseRevertReason (abiEncodeRevert msg)
       = codeUnitsOf msg @ replicate (abiPadding (length msg)) 0"
proof -
  have "length (''0x08c379a0'' @ abiWord 32 @ abiWord (length msg)) = 138"
    using assms by (simp add: length_abiWord)
  from decode_after_head[OF this, of msg "abiPadding (length msg)"]
  show ?thesis by (simp add: abiEncodeRevert_def)
qed

lemma abiEncodeRevert_sample:
  "abiEncodeRevert ''execution failed'' = ''0x08c379a000000000000000000000000000000000000000000000000000000000000000200000000000000000000000000000000000000000000000000000000000000010657865637574696f6e206661696c656400000000000000000000000000000000''"
  by code_simp

text \<open>
  C4. String-revert decoding answers the empty string for an input shorter than 138
  characters. Otherwise it drops the first 138 characters and answers one character code
  per consecutive pair of the remaining characters, which for a pair of hex digits is the
  byte they write. The decoder does not read the length word, so the zero bytes that pad an
  ABI-encoded string come out as NUL characters: a well-formed encoding of a message
  decodes to the message followed by one NUL per padding byte.
\<close>

theorem parseRevertReason_decodes:
  "(length s < 138 \<longrightarrow> parseRevertReason s = [])
   \<and> (138 \<le> length s \<longrightarrow>
        parseRevertReason s = map (\<lambda>p. fromCharCode (parseInt16 p)) (pairs (drop 138 s)))
   \<and> (hexVal a = Some x \<and> hexVal b = Some y \<longrightarrow> fromCharCode (parseInt16 [a, b]) = 16 * x + y)
   \<and> (length msg < 2 ^ 256 \<longrightarrow>
        parseRevertReason (abiEncodeRevert msg)
          = codeUnitsOf msg @ replicate (abiPadding (length msg)) 0)"
  using parseRevertReason_short parseRevertReason_long parseInt16_hex_pair decode_abiEncodeRevert
  by blast

theorem parseRevertReason_decodes_witness:
  "length ''0x08c379a0'' < 138 \<and> parseRevertReason ''0x08c379a0'' = []
   \<and> 138 \<le> length (replicate 138 (CHR ''0'') @ ''4f4b'')
   \<and> parseRevertReason (replicate 138 (CHR ''0'') @ ''4f4b'') = codeUnitsOf ''OK''
   \<and> hexVal (CHR ''4'') = Some 4 \<and> hexVal (CHR ''f'') = Some 15
   \<and> fromCharCode (parseInt16 ''4f'') = 79
   \<and> length ''hi'' < (2::nat) ^ 256
   \<and> parseRevertReason (abiEncodeRevert ''hi'') = codeUnitsOf ''hi'' @ replicate 30 0"
proof -
  have h: "hexVal (CHR ''4'') = Some 4" "hexVal (CHR ''f'') = Some 15"
          "hexVal (CHR ''b'') = Some 11"
    by (simp_all add: hexVal_def)
  have p: "fromCharCode (parseInt16 ''4f'') = 79" "fromCharCode (parseInt16 ''4b'') = 75"
    using parseInt16_hex_pair[OF h(1) h(2)] parseInt16_hex_pair[OF h(1) h(3)] by simp_all
  have l: "length ''hi'' < (2::nat) ^ 256" by simp
  show ?thesis
    using parseRevertReason_decodes[of "''0x08c379a0''" "CHR ''4''" 4 "CHR ''f''" 15 "''hi''"]
          parseRevertReason_decodes[of "replicate 138 (CHR ''0'') @ ''4f4b''" "CHR ''4''" 4 "CHR ''f''" 15 "''hi''"]
          h p l
    by (simp add: codeUnitsOf_def abiPadding_def)
qed

theorem parseRevertReason_roundtrip_counterexample:
  "abiEncodeRevert ''execution failed'' = ''0x08c379a000000000000000000000000000000000000000000000000000000000000000200000000000000000000000000000000000000000000000000000000000000010657865637574696f6e206661696c656400000000000000000000000000000000''
   \<and> parseRevertReason ''0x08c379a000000000000000000000000000000000000000000000000000000000000000200000000000000000000000000000000000000000000000000000000000000010657865637574696f6e206661696c656400000000000000000000000000000000''
       = codeUnitsOf ''execution failed'' @ replicate 16 0
   \<and> parseRevertReason ''0x08c379a000000000000000000000000000000000000000000000000000000000000000200000000000000000000000000000000000000000000000000000000000000010657865637574696f6e206661696c656400000000000000000000000000000000''
       \<noteq> codeUnitsOf ''execution failed''"
proof -
  have l: "length ''execution failed'' < (2::nat) ^ 256" by simp
  have "parseRevertReason (abiEncodeRevert ''execution failed'')
          = codeUnitsOf ''execution failed'' @ replicate 16 0"
    using decode_abiEncodeRevert[OF l] by (simp add: abiPadding_def)
  then show ?thesis
    unfolding abiEncodeRevert_sample by (simp add: codeUnitsOf_def)
qed

subsection \<open>Panic codes\<close>

lemma sliceLast_append2: "length b = 2 \<Longrightarrow> sliceLast 2 (p @ b) = b"
  by (simp add: sliceLast_def)

text \<open>
  C5. Panic decoding looks at the last two characters of the payload only. Each of the
  eight known codes gives its fixed message, 11 the arithmetic underflow or overflow one,
  and every other ending gives the default message. The decoder has no failing branch: it
  answers a message for every string.
\<close>

theorem parsePanicReason_last_byte_table:
  "(sliceLast 2 s = sliceLast 2 t \<longrightarrow> parsePanicReason s = parsePanicReason t)
   \<and> parsePanicReason (p @ ''01'') = ''If you call assert with an argument that evaluates to false.''
   \<and> parsePanicReason (p @ ''11'') = ''If an arithmetic operation results in underflow or overflow outside of an unchecked { ... } block.''
   \<and> parsePanicReason (p @ ''12'') = ''If you divide or modulo by zero (e.g. 5 / 0 or 23 % 0).''
   \<and> parsePanicReason (p @ ''21'') = ''If you convert a value that is too big or negative into an enum type.''
   \<and> parsePanicReason (p @ ''31'') = ''If you call .pop() on an empty array.''
   \<and> parsePanicReason (p @ ''32'') = ''If you access an array, bytesN or an array slice at an out-of-bounds or negative index (i.e. x[i] where i >= x.length or i < 0).''
   \<and> parsePanicReason (p @ ''41'') = ''If you allocate too much memory or create an array that is too large.''
   \<and> parsePanicReason (p @ ''51'') = ''If you call a zero-initialized variable of internal function type.''
   \<and> (sliceLast 2 s \<notin> {''01'', ''11'', ''12'', ''21'', ''31'', ''32'', ''41'', ''51''}
        \<longrightarrow> parsePanicReason s = ''Default panic message'')"
  by (simp add: parsePanicReason_def sliceLast_append2)

theorem parsePanicReason_last_byte_table_witness:
  "sliceLast 2 ''0x4e487b710011'' = sliceLast 2 ''11''
   \<and> parsePanicReason ''0x4e487b710011'' = parsePanicReason ''11''
   \<and> sliceLast 2 ''0x4e487b7100ff'' \<notin> {''01'', ''11'', ''12'', ''21'', ''31'', ''32'', ''41'', ''51''}
   \<and> parsePanicReason ''0x4e487b7100ff'' = ''Default panic message''
   \<and> parsePanicReason '''' = ''Default panic message''"
  using parsePanicReason_last_byte_table[of "''0x4e487b710011''" "''11''" "[]"]
        parsePanicReason_last_byte_table[of "''0x4e487b7100ff''" "[]" "[]"]
        parsePanicReason_last_byte_table[of "[]" "[]" "[]"]
  by (simp add: sliceLast_def)

section \<open>Filter engine: properties\<close>

subsection \<open>Positional topic match\<close>

lemma includesStr_sublist: "includesStr s x \<longleftrightarrow> sublist x s"
  by (induction s) (auto simp: sublist_Cons_right)

lemma noPrefixTrim_Nil: "noPrefixTrim True [] = []"
  by (simp add: noPrefixTrim_def toLowerCase_def)

lemma noPrefixTrim_True: "noPrefixTrim True s = stripZeroPairs (toLowerCase (strip0x s))"
  by (simp add: noPrefixTrim_def)

lemma removeZeroHexFromFilter_FStr:
  "removeZeroHexFromFilter (FStr s) True = FStr (stripZeroPairs (toLowerCase (strip0x s)))"
  using noPrefixTrim_Nil by (auto simp: noPrefixTrim_True)

lemma removeZeroHexFromFilter_FArr:
  "removeZeroHexFromFilter (FArr fs) True
     = FArr (map (map_option (\<lambda>s. stripZeroPairs (toLowerCase (strip0x s)))) fs)"
proof -
  have "(case f of None \<Rightarrow> None | Some s \<Rightarrow> if s = [] then Some s else Some (noPrefixTrim True s))
        = map_option (\<lambda>s. stripZeroPairs (toLowerCase (strip0x s))) f" for f
    using noPrefixTrim_Nil by (cases f) (auto simp: noPrefixTrim_True)
  then show ?thesis by simp
qed

lemma hasTopicsLoop_flags:
  "hasTopicsLoop topics ps acc = acc @ map (\<lambda>(i, t). positionFlag topics i t) ps"
  by (induction topics ps acc rule: hasTopicsLoop.induct) (auto simp: positionFlag_def)

lemma normalized_log_topics:
  "arrayOf (removeZeroHexFromFilter (FArr (map Some topics)) True)
     = map (\<lambda>s. Some (stripZeroPairs (toLowerCase (strip0x s)))) topics"
  unfolding removeZeroHexFromFilter_FArr by (simp add: arrayOf_def comp_def)

lemma hasTopics_flags:
  "hasTopics topics topicsFilter \<longleftrightarrow>
     (\<forall>i < length topicsFilter.
        positionFlag (map (\<lambda>s. Some (stripZeroPairs (toLowerCase (strip0x s)))) topics) i
          (removeZeroHexFromFilter (topicsFilter ! i) True))"
  unfolding hasTopics_def Let_def normalized_log_topics hasTopicsLoop_flags
  by (auto simp: list_all_iff in_set_enumerate_eq)

lemma Some_in_map_option_image:
  "Some y \<in> map_option N ` A \<longleftrightarrow> (\<exists>s. Some s \<in> A \<and> N s = y)"
proof
  assume "Some y \<in> map_option N ` A"
  then obtain x where x: "x \<in> A" "map_option N x = Some y" by force
  then obtain s where "x = Some s" "N s = y" by (cases x) auto
  with x show "\<exists>s. Some s \<in> A \<and> N s = y" by auto
next
  assume "\<exists>s. Some s \<in> A \<and> N s = y"
  then show "Some y \<in> map_option N ` A" by force
qed

lemma positionFlag_cases:
  "positionFlag (map (\<lambda>s. Some (N s)) topics) i (case t of FNull \<Rightarrow> FNull | FStr f \<Rightarrow> FStr (N f) | FArr fs \<Rightarrow> FArr (map (map_option N) fs)) \<longleftrightarrow>
    (case t of
       FNull \<Rightarrow> True
     | FStr f \<Rightarrow> (if i < length topics then sublist (N (topics ! i)) (N f) \<or> N (topics ! i) = N f
                  else sublist ''undefined'' (N f))
     | FArr fs \<Rightarrow> i < length topics \<and> (\<exists>s. Some s \<in> set fs \<and> N s = N (topics ! i)))"
  by (cases t) (auto simp: positionFlag_def nthOpt_def argText_def strictEq_def includesStr_sublist
       Some_in_map_option_image split: option.splits)

lemma removeZeroHexFromFilter_cases:
  "removeZeroHexFromFilter t True =
     (case t of FNull \<Rightarrow> FNull
      | FStr f \<Rightarrow> FStr (stripZeroPairs (toLowerCase (strip0x f)))
      | FArr fs \<Rightarrow> FArr (map (map_option (\<lambda>s. stripZeroPairs (toLowerCase (strip0x s)))) fs))"
proof (cases t)
  case FNull
  then show ?thesis by simp
next
  case (FStr f)
  then show ?thesis by (simp only: removeZeroHexFromFilter_FStr filter_val.case)
next
  case (FArr fs)
  then show ?thesis by (simp only: removeZeroHexFromFilter_FArr filter_val.case)
qed

text \<open>
  C3. A log matches a positional topics filter iff every filter position matches. A
  position holding \<open>null\<close> matches any log topic. A string at position \<open>i\<close> matches iff,
  after removing the \<open>0x\<close> prefix, lower-casing and removing leading \<open>00\<close> pairs on both
  sides, the log topic at position \<open>i\<close> is contained in the filter topic (or the two are
  equal): the containment runs from the log topic into the filter topic. Where the log
  has no topic at position \<open>i\<close>, the text \<open>undefined\<close> is what is looked for in the filter
  topic. A list at position \<open>i\<close> matches iff one of its strings equals the log topic after
  the same normalisation.
\<close>

theorem hasTopics_positional:
  "hasTopics topics topicsFilter \<longleftrightarrow>
    (\<forall>i < length topicsFilter.
       case topicsFilter ! i of
         FNull \<Rightarrow> True
       | FStr f \<Rightarrow>
           (if i < length topics
            then sublist (stripZeroPairs (toLowerCase (strip0x (topics ! i))))
                         (stripZeroPairs (toLowerCase (strip0x f)))
                 \<or> stripZeroPairs (toLowerCase (strip0x (topics ! i)))
                     = stripZeroPairs (toLowerCase (strip0x f))
            else sublist ''undefined'' (stripZeroPairs (toLowerCase (strip0x f))))
       | FArr fs \<Rightarrow>
           i < length topics \<and>
           (\<exists>s. Some s \<in> set fs \<and>
                stripZeroPairs (toLowerCase (strip0x s))
                  = stripZeroPairs (toLowerCase (strip0x (topics ! i)))))"
  unfolding hasTopics_flags removeZeroHexFromFilter_cases
    positionFlag_cases[where N = "\<lambda>s. stripZeroPairs (toLowerCase (strip0x s))"]
  by (rule refl)


theorem hasTopics_positional_witness:
  "hasTopics [''aa'', ''0000abc''] [FNull, FStr ''0x00000ABC'']
   \<and> \<not> hasTopics [''aa''] [FNull, FStr ''0xabc'']
   \<and> hasTopics [''00AB''] [FArr [None, Some ''0xab'']]"
proof -
  have a: "hasTopics [''aa'', ''0000abc''] [FNull, FStr ''0x00000ABC'']"
    apply (subst hasTopics_positional)
    apply (simp add: All_less_Suc)
    apply code_simp
    done
  have b: "\<not> hasTopics [''aa''] [FNull, FStr ''0xabc'']"
    apply (subst hasTopics_positional)
    apply (simp add: All_less_Suc)
    apply code_simp
    done
  have c: "hasTopics [''00AB''] [FArr [None, Some ''0xab'']]"
    apply (subst hasTopics_positional)
    apply (simp add: All_less_Suc)
    apply code_simp
    done
  from a b c show ?thesis by simp
qed

lemma sample_topic_norms:
  "stripZeroPairs (toLowerCase (strip0x ''0xddf252ad'')) = ''ddf252ad''"
  "stripZeroPairs (toLowerCase (strip0x ''ddf252ad1be2c89b69c2b068fc378daa952ba7f163c4a11628f55a4df523b3ef''))
     = ''ddf252ad1be2c89b69c2b068fc378daa952ba7f163c4a11628f55a4df523b3ef''"
  "stripZeroPairs (toLowerCase (strip0x ''0xddf252ad1be2c89b69c2b068fc378daa952ba7f163c4a11628f55a4df523b3ef''))
     = ''ddf252ad1be2c89b69c2b068fc378daa952ba7f163c4a11628f55a4df523b3ef''"
  "stripZeroPairs (toLowerCase (strip0x ''00000000000000000000000000000000000000000000000000000000000000ef''))
     = ''ef''"
  by code_simp+

theorem hasTopics_containment_counterexample:
  "\<not> hasTopics [''ddf252ad1be2c89b69c2b068fc378daa952ba7f163c4a11628f55a4df523b3ef'']
                 [FStr ''0xddf252ad'']
   \<and> sublist (stripZeroPairs (toLowerCase (strip0x ''0xddf252ad'')))
        (stripZeroPairs (toLowerCase (strip0x ''ddf252ad1be2c89b69c2b068fc378daa952ba7f163c4a11628f55a4df523b3ef'')))
   \<and> hasTopics [''00000000000000000000000000000000000000000000000000000000000000ef'']
                [FStr ''0xddf252ad1be2c89b69c2b068fc378daa952ba7f163c4a11628f55a4df523b3ef'']
   \<and> \<not> sublist (stripZeroPairs (toLowerCase (strip0x ''0xddf252ad1be2c89b69c2b068fc378daa952ba7f163c4a11628f55a4df523b3ef'')))
        (stripZeroPairs (toLowerCase (strip0x ''00000000000000000000000000000000000000000000000000000000000000ef'')))
   \<and> stripZeroPairs (toLowerCase (strip0x ''0xddf252ad1be2c89b69c2b068fc378daa952ba7f163c4a11628f55a4df523b3ef''))
        \<noteq> stripZeroPairs (toLowerCase (strip0x ''00000000000000000000000000000000000000000000000000000000000000ef''))"
proof -
  have a: "\<not> hasTopics [''ddf252ad1be2c89b69c2b068fc378daa952ba7f163c4a11628f55a4df523b3ef'']
                 [FStr ''0xddf252ad'']"
    by code_simp
  have b: "hasTopics [''00000000000000000000000000000000000000000000000000000000000000ef'']
                [FStr ''0xddf252ad1be2c89b69c2b068fc378daa952ba7f163c4a11628f55a4df523b3ef'']"
    by code_simp
  have c: "sublist ''ddf252ad'' ''ddf252ad1be2c89b69c2b068fc378daa952ba7f163c4a11628f55a4df523b3ef''"
    by code_simp
  have d: "\<not> sublist ''ddf252ad1be2c89b69c2b068fc378daa952ba7f163c4a11628f55a4df523b3ef'' ''ef''"
    by code_simp
  show ?thesis
    unfolding sample_topic_norms using a b c d by simp
qed

subsection \<open>The processing loop of eth_getLogs\<close>

lemma logsLoop_numbered:
  "logsLoop keccak ctx doc logs (results, n) =
     (results @ map (numberedLog keccak)
                  (enumerate n (map (Pair doc)
                     (filter (\<lambda>log. \<not> skippedByBlock ctx doc
                                \<and> logFilterMatch log (c_addressFilter ctx) (c_topicsFilter ctx)) logs))),
      n + length (filter (\<lambda>log. \<not> skippedByBlock ctx doc
                                \<and> logFilterMatch log (c_addressFilter ctx) (c_topicsFilter ctx)) logs))"
  by (induction logs arbitrary: results n) (simp_all add: numberedLog_def)

lemma logsLoop_kept:
  "r_logs (d_raw doc) = Some logs \<Longrightarrow>
   logsLoop keccak ctx doc logs (results, n) =
     (results @ map (numberedLog keccak) (enumerate n (map (Pair doc) (keptLogs ctx doc))),
      n + length (keptLogs ctx doc))"
  by (simp add: logsLoop_numbered keptLogs_def)

lemma hitsLoop_numbered:
  "hitsLoop keccak ctx hits (results, n) =
     (results @ map (numberedLog keccak) (enumerate n (matchedLogs ctx hits)),
      n + length (matchedLogs ctx hits))"
proof (induction hits arbitrary: results n)
  case Nil
  then show ?case by (simp add: matchedLogs_def)
next
  case (Cons hit hits)
  have m: "matchedLogs ctx (hit # hits) = map (Pair hit) (keptLogs ctx hit) @ matchedLogs ctx hits"
    by (simp add: matchedLogs_def)
  show ?case
  proof (cases "r_logs (d_raw hit)")
    case None
    then have "keptLogs ctx hit = []" by (simp add: keptLogs_def)
    with None Cons.IH m show ?thesis by simp
  next
    case (Some logs)
    show ?thesis
      by (simp add: Some logsLoop_kept[OF Some] Cons.IH m enumerate_append_eq add.assoc)
  qed
qed

lemma matchedLogs_docs: "fst ` set (matchedLogs ctx hits) \<subseteq> set hits"
  by (auto simp: matchedLogs_def)

lemma matchedLogs_sorted:
  "sorted (map d_global_sequence hits) \<Longrightarrow>
   sorted (map (d_global_sequence \<circ> fst) (matchedLogs ctx hits))"
proof (induction hits)
  case Nil
  then show ?case by (simp add: matchedLogs_def)
next
  case (Cons hit hits)
  have m: "matchedLogs ctx (hit # hits) = map (Pair hit) (keptLogs ctx hit) @ matchedLogs ctx hits"
    by (simp add: matchedLogs_def)
  have later: "d_global_sequence hit \<le> d_global_sequence (fst e)"
    if "e \<in> set (matchedLogs ctx hits)" for e
  proof -
    from that have "fst e \<in> set hits" using matchedLogs_docs by blast
    with Cons.prems show ?thesis by auto
  qed
  have first: "map (d_global_sequence \<circ> fst) (map (Pair hit) (keptLogs ctx hit))
                 = replicate (length (keptLogs ctx hit)) (d_global_sequence hit)"
    by (simp add: comp_def map_replicate_const)
  have rest: "sorted (map (d_global_sequence \<circ> fst) (matchedLogs ctx hits))"
    by (rule Cons.IH) (use Cons.prems in simp)
  have "sorted (replicate (length (keptLogs ctx hit)) (d_global_sequence hit)
                  @ map (d_global_sequence \<circ> fst) (matchedLogs ctx hits))"
    unfolding sorted_append using rest later by (auto simp: sorted_replicate)
  then show ?case
    unfolding m map_append first .
qed

lemma el_logIndex_numberedLog: "el_logIndex (numberedLog keccak (i, doc, log)) = numToHex i"
  by (simp add: numberedLog_def makeLogObject_def)

lemma numbered_logIndex:
  "i < length ms \<Longrightarrow> el_logIndex (map (numberedLog keccak) (enumerate 0 ms) ! i) = numToHex i"
  by (cases "ms ! i") (simp add: nth_enumerate_eq el_logIndex_numberedLog)

lemma eth_getLogs_results:
  assumes "prepareLogsQuery indexedHead params = Inr (queryBody, ctx)"
      and "esSearch select (logsRequest queryBody) = Some hits"
  shows "eth_getLogs keccak select indexedHead params
           = Inr (map (numberedLog keccak) (enumerate 0 (matchedLogs ctx hits)))"
  using assms by (simp add: eth_getLogs_def hitsLoop_numbered)

lemma sortField_global_sequence: "sortField ''global_sequence'' = d_global_sequence"
  by (rule ext) (simp add: sortField_def)

lemma logs_search_sorted:
  assumes "esSearch select (logsRequest queryBody) = Some hits"
  shows "sorted (map d_global_sequence hits)"
proof -
  from assms obtain ds where "hits = take 2000 (sort_key d_global_sequence ds)"
    by (auto simp: esSearch_def logsRequest_def sortField_global_sequence split: option.splits)
  then have "map d_global_sequence hits = take 2000 (map d_global_sequence (sort_key d_global_sequence ds))"
    by (simp add: take_map)
  then show ?thesis
    by (simp add: sorted_wrt_take sorted_sort_key)
qed

text \<open>
  C7. The handler asks the search backend for the hits sorted by \<open>global_sequence\<close>
  ascending, and the result holds the kept logs hit by hit in the order of the answer: the
  matching logs are ascending by the global sequence number of the document each log comes
  from. The \<open>logIndex\<close> of a result log is its position in the whole result, a counter that
  runs through all blocks of the result and is not started again for a new block.
\<close>

theorem eth_getLogs_order_and_logIndex:
  "prepareLogsQuery indexedHead params = Inr (queryBody, ctx)
   \<and> esSearch select (logsRequest queryBody) = Some hits
   \<longrightarrow>
     eth_getLogs keccak select indexedHead params
       = Inr (map (numberedLog keccak) (enumerate 0 (matchedLogs ctx hits)))
     \<and> sorted (map (d_global_sequence \<circ> fst) (matchedLogs ctx hits))
     \<and> (\<forall>i < length (matchedLogs ctx hits).
           el_logIndex (map (numberedLog keccak) (enumerate 0 (matchedLogs ctx hits)) ! i)
             = numToHex i)"
  using eth_getLogs_results matchedLogs_sorted[OF logs_search_sorted] numbered_logIndex by blast

lemma sample_range_query:
  "prepareLogsQuery ''0x2'' (noFilter\<lparr> f_fromBlock := Some (BStr ''0x1'') \<rparr>)
     = Inr ([Exists ''@raw.logs'', Range ''@raw.block'' (Some 1) (Some 2)],
            \<lparr> c_blockHash = None, c_fromBlock = Some 1, c_toBlock = Some 2,
              c_addressFilter = None, c_topicsFilter = None \<rparr>)"
  by code_simp

lemma sample_range_matched:
  "matchedLogs \<lparr> c_blockHash = None, c_fromBlock = Some 1, c_toBlock = Some 2,
                 c_addressFilter = None, c_topicsFilter = None \<rparr> sampleHits
     = [(sampleDoc 1 ''aa01'' 21000 (Some ''01'') 10, sampleLog),
        (sampleDoc 2 ''aa02'' 50000 (Some ''04'') 20, sampleLog)]"
  by (simp add: matchedLogs_def keptLogs_def sampleHits_def sampleDoc_def sampleReceipt_def
      skippedByBlock_def truthyStr_def numGreater_def numLess_def logFilterMatch_def truthyFilter_def)

lemma sample_hits_sorted: "sorted (map d_global_sequence sampleHits)"
  by (simp add: sampleHits_def sampleDoc_def)

lemma sample_search: "esSearch sampleSearch (logsRequest queryBody) = Some sampleHits"
  by (simp add: esSearch_def logsRequest_def sampleSearch_def sampleHits_def sortField_def
      sampleDoc_def)

lemma sample_checksum:
  "toChecksumAddress sampleKeccak ''0xd102ce6a4db07d247fcc28f366a623df0938ca9e''
     = ''0xd102ce6a4db07d247fcc28f366a623df0938ca9e''"
  by code_simp

lemma sample_numToHex: "numToHex 0 = ''0x0''" "numToHex 1 = ''0x1''" "numToHex 2 = ''0x2''"
  by code_simp+

lemma sample_topic_padded:
  "padStart 64 (CHR ''0'') ''ddf252ad1be2c89b69c2b068fc378daa952ba7f163c4a11628f55a4df523b3ef''
     = ''ddf252ad1be2c89b69c2b068fc378daa952ba7f163c4a11628f55a4df523b3ef''"
  by code_simp

lemma sample_numbered:
  "numberedLog sampleKeccak (i, sampleDoc b h g blm sq, sampleLog)
     = \<lparr> el_address = ''0xd102ce6a4db07d247fcc28f366a623df0938ca9e'',
         el_blockHash = ''0x'' @ h, el_blockNumber = numToHex b,
         el_data = ''0x'', el_logIndex = numToHex i, el_removed = Some False,
         el_topics = [''0xddf252ad1be2c89b69c2b068fc378daa952ba7f163c4a11628f55a4df523b3ef''],
         el_transactionHash = ''0x'' @ h, el_transactionIndex = ''0x0'' \<rparr>"
  using sample_checksum sample_topic_padded sample_numToHex(1)
  by (simp add: numberedLog_def makeLogObject_def sampleDoc_def sampleReceipt_def sampleLog_def)

lemma sample_range_logs:
  "eth_getLogs sampleKeccak sampleSearch ''0x2'' (noFilter\<lparr> f_fromBlock := Some (BStr ''0x1'') \<rparr>)
     = Inr [\<lparr> el_address = ''0xd102ce6a4db07d247fcc28f366a623df0938ca9e'',
              el_blockHash = ''0xaa01'', el_blockNumber = ''0x1'',
              el_data = ''0x'', el_logIndex = ''0x0'', el_removed = Some False,
              el_topics = [''0xddf252ad1be2c89b69c2b068fc378daa952ba7f163c4a11628f55a4df523b3ef''],
              el_transactionHash = ''0xaa01'', el_transactionIndex = ''0x0'' \<rparr>,
            \<lparr> el_address = ''0xd102ce6a4db07d247fcc28f366a623df0938ca9e'',
              el_blockHash = ''0xaa02'', el_blockNumber = ''0x2'',
              el_data = ''0x'', el_logIndex = ''0x1'', el_removed = Some False,
              el_topics = [''0xddf252ad1be2c89b69c2b068fc378daa952ba7f163c4a11628f55a4df523b3ef''],
              el_transactionHash = ''0xaa02'', el_transactionIndex = ''0x0'' \<rparr>]"
  unfolding eth_getLogs_results[OF sample_range_query sample_search] sample_range_matched
  using sample_numToHex by (simp add: sample_numbered)

theorem eth_getLogs_order_and_logIndex_witness:
  "prepareLogsQuery ''0x2'' (noFilter\<lparr> f_fromBlock := Some (BStr ''0x1'') \<rparr>)
     = Inr ([Exists ''@raw.logs'', Range ''@raw.block'' (Some 1) (Some 2)],
            \<lparr> c_blockHash = None, c_fromBlock = Some 1, c_toBlock = Some 2,
              c_addressFilter = None, c_topicsFilter = None \<rparr>)
   \<and> sampleSearch [Exists ''@raw.logs'', Range ''@raw.block'' (Some 1) (Some 2)]
       = Some [sampleDoc 2 ''aa02'' 50000 (Some ''04'') 20, sampleDoc 1 ''aa01'' 21000 (Some ''01'') 10]
   \<and> esSearch sampleSearch (logsRequest [Exists ''@raw.logs'', Range ''@raw.block'' (Some 1) (Some 2)])
       = Some [sampleDoc 1 ''aa01'' 21000 (Some ''01'') 10, sampleDoc 2 ''aa02'' 50000 (Some ''04'') 20]
   \<and> eth_getLogs sampleKeccak sampleSearch ''0x2'' (noFilter\<lparr> f_fromBlock := Some (BStr ''0x1'') \<rparr>)
       = Inr [numberedLog sampleKeccak (0, sampleDoc 1 ''aa01'' 21000 (Some ''01'') 10, sampleLog),
              numberedLog sampleKeccak (1, sampleDoc 2 ''aa02'' 50000 (Some ''04'') 20, sampleLog)]
   \<and> el_logIndex (numberedLog sampleKeccak (1, sampleDoc 2 ''aa02'' 50000 (Some ''04'') 20, sampleLog))
       = numToHex 1"
proof -
  let ?ctx = "\<lparr> c_blockHash = None, c_fromBlock = Some 1, c_toBlock = Some 2,
                c_addressFilter = None, c_topicsFilter = None \<rparr>"
  let ?q = "[Exists ''@raw.logs'', Range ''@raw.block'' (Some 1) (Some 2)]"
  let ?ms = "[(sampleDoc 1 ''aa01'' 21000 (Some ''01'') 10, sampleLog),
              (sampleDoc 2 ''aa02'' 50000 (Some ''04'') 20, sampleLog)]"
  have e: "enumerate 0 ?ms
           = [(0, sampleDoc 1 ''aa01'' 21000 (Some ''01'') 10, sampleLog),
              (1, sampleDoc 2 ''aa02'' 50000 (Some ''04'') 20, sampleLog)]"
    by simp
  have raw: "sampleSearch ?q
       = Some [sampleDoc 2 ''aa02'' 50000 (Some ''04'') 20, sampleDoc 1 ''aa01'' 21000 (Some ''01'') 10]"
    by (simp add: sampleSearch_def sampleHits_def)
  have hyp: "prepareLogsQuery ''0x2'' (noFilter\<lparr> f_fromBlock := Some (BStr ''0x1'') \<rparr>) = Inr (?q, ?ctx)
             \<and> esSearch sampleSearch (logsRequest ?q) = Some sampleHits"
    using sample_range_query sample_search by simp
  from eth_getLogs_order_and_logIndex[where indexedHead = "''0x2''"
         and params = "noFilter\<lparr> f_fromBlock := Some (BStr ''0x1'') \<rparr>"
         and queryBody = ?q and ctx = ?ctx and select = sampleSearch and hits = sampleHits
         and keccak = sampleKeccak] hyp
  have r: "eth_getLogs sampleKeccak sampleSearch ''0x2'' (noFilter\<lparr> f_fromBlock := Some (BStr ''0x1'') \<rparr>)
             = Inr (map (numberedLog sampleKeccak) (enumerate 0 (matchedLogs ?ctx sampleHits)))"
    and i: "\<forall>i < length (matchedLogs ?ctx sampleHits).
           el_logIndex (map (numberedLog sampleKeccak) (enumerate 0 (matchedLogs ?ctx sampleHits)) ! i)
             = numToHex i"
    by blast+
  from i have "1 < length ?ms \<longrightarrow>
      el_logIndex (map (numberedLog sampleKeccak) (enumerate 0 ?ms) ! 1) = numToHex 1"
    unfolding sample_range_matched by (rule spec)
  then have l: "el_logIndex (numberedLog sampleKeccak (1, sampleDoc 2 ''aa02'' 50000 (Some ''04'') 20, sampleLog))
       = numToHex 1"
    unfolding e by simp
  from r have g: "eth_getLogs sampleKeccak sampleSearch ''0x2'' (noFilter\<lparr> f_fromBlock := Some (BStr ''0x1'') \<rparr>)
       = Inr [numberedLog sampleKeccak (0, sampleDoc 1 ''aa01'' 21000 (Some ''01'') 10, sampleLog),
              numberedLog sampleKeccak (1, sampleDoc 2 ''aa02'' 50000 (Some ''04'') 20, sampleLog)]"
    unfolding sample_range_matched e by simp
  from hyp have s: "esSearch sampleSearch (logsRequest ?q)
       = Some [sampleDoc 1 ''aa01'' 21000 (Some ''01'') 10, sampleDoc 2 ''aa02'' 50000 (Some ''04'') 20]"
    by (simp add: sampleHits_def)
  from hyp raw s g l show ?thesis by blast
qed

theorem eth_getLogs_logIndex_counterexample:
  "eth_getLogs sampleKeccak sampleSearch ''0x2'' (noFilter\<lparr> f_fromBlock := Some (BStr ''0x1'') \<rparr>)
     = Inr [\<lparr> el_address = ''0xd102ce6a4db07d247fcc28f366a623df0938ca9e'',
              el_blockHash = ''0xaa01'', el_blockNumber = ''0x1'',
              el_data = ''0x'', el_logIndex = ''0x0'', el_removed = Some False,
              el_topics = [''0xddf252ad1be2c89b69c2b068fc378daa952ba7f163c4a11628f55a4df523b3ef''],
              el_transactionHash = ''0xaa01'', el_transactionIndex = ''0x0'' \<rparr>,
            \<lparr> el_address = ''0xd102ce6a4db07d247fcc28f366a623df0938ca9e'',
              el_blockHash = ''0xaa02'', el_blockNumber = ''0x2'',
              el_data = ''0x'', el_logIndex = ''0x1'', el_removed = Some False,
              el_topics = [''0xddf252ad1be2c89b69c2b068fc378daa952ba7f163c4a11628f55a4df523b3ef''],
              el_transactionHash = ''0xaa02'', el_transactionIndex = ''0x0'' \<rparr>]
   \<and> map r_block (map d_raw sampleHits) = [1, 2]
   \<and> map r_logs (map d_raw sampleHits) = [Some [sampleLog], Some [sampleLog]]"
  using sample_range_logs by (simp add: sampleHits_def sampleDoc_def sampleReceipt_def)

subsection \<open>Block hash together with a block range\<close>

lemma prepareLogsQuery_throws:
  assumes "truthyStr (f_blockHash params)"
      and "truthyBlock (f_fromBlock params) \<or> truthyBlock (f_toBlock params)"
  shows "prepareLogsQuery indexedHead params
           = Inl (Error ''fromBlock/toBlock are not allowed with blockHash query'')"
  using assms by (simp add: prepareLogsQuery_def)

lemma eth_getLogs_throws:
  assumes "truthyStr (f_blockHash params)"
      and "truthyBlock (f_fromBlock params) \<or> truthyBlock (f_toBlock params)"
  shows "eth_getLogs keccak search indexedHead params
           = Inl (Error ''fromBlock/toBlock are not allowed with blockHash query'')"
  by (simp add: eth_getLogs_def prepareLogsQuery_throws[OF assms])

text \<open>
  C6. For every filter object whose \<open>blockHash\<close> is a non-empty string and whose \<open>fromBlock\<close>
  or \<open>toBlock\<close> is a non-empty string or a number other than 0, the handler throws the error
  \<open>fromBlock/toBlock are not allowed with blockHash query\<close>, whatever the search backend
  would answer: the query is not run. An empty string and the number 0 count as not set.
\<close>

theorem eth_getLogs_blockHash_with_range:
  "f_blockHash params = Some h \<and> h \<noteq> []
   \<and> (f_fromBlock params = Some b \<or> f_toBlock params = Some b)
   \<and> b \<noteq> BStr [] \<and> b \<noteq> BNum 0
   \<longrightarrow> eth_getLogs keccak search indexedHead params
         = Inl (Error ''fromBlock/toBlock are not allowed with blockHash query'')"
proof (intro impI)
  assume a: "f_blockHash params = Some h \<and> h \<noteq> []
   \<and> (f_fromBlock params = Some b \<or> f_toBlock params = Some b)
   \<and> b \<noteq> BStr [] \<and> b \<noteq> BNum 0"
  then have t: "truthyBlock (Some b)"
    by (cases b) (auto simp: truthyBlock_def)
  from a have "truthyStr (f_blockHash params)"
    by (simp add: truthyStr_def)
  moreover from a t have "truthyBlock (f_fromBlock params) \<or> truthyBlock (f_toBlock params)"
    by auto
  ultimately show "eth_getLogs keccak search indexedHead params
         = Inl (Error ''fromBlock/toBlock are not allowed with blockHash query'')"
    by (rule eth_getLogs_throws)
qed

theorem eth_getLogs_blockHash_with_range_witness:
  "f_blockHash (noFilter\<lparr> f_blockHash := Some ''0xaa02'', f_fromBlock := Some (BStr ''0x0'') \<rparr>)
     = Some ''0xaa02''
   \<and> ''0xaa02'' \<noteq> []
   \<and> f_fromBlock (noFilter\<lparr> f_blockHash := Some ''0xaa02'', f_fromBlock := Some (BStr ''0x0'') \<rparr>)
     = Some (BStr ''0x0'')
   \<and> BStr ''0x0'' \<noteq> BStr [] \<and> BStr ''0x0'' \<noteq> BNum 0
   \<and> eth_getLogs sampleKeccak sampleSearch ''0x2''
        (noFilter\<lparr> f_blockHash := Some ''0xaa02'', f_fromBlock := Some (BStr ''0x0'') \<rparr>)
       = Inl (Error ''fromBlock/toBlock are not allowed with blockHash query'')"
  using eth_getLogs_blockHash_with_range[of
          "noFilter\<lparr> f_blockHash := Some ''0xaa02'', f_fromBlock := Some (BStr ''0x0'') \<rparr>"
          "''0xaa02''" "BStr ''0x0''" sampleKeccak sampleSearch "''0x2''"]
  by (simp add: noFilter_def)

lemma sample_hash_query:
  "prepareLogsQuery ''0x2'' (noFilter\<lparr> f_blockHash := Some ''0xaa02'', f_fromBlock := Some (BNum 0) \<rparr>)
     = Inr ([Exists ''@raw.logs'', Term ''@raw.block_hash'' ''aa02''],
            \<lparr> c_blockHash = Some ''aa02'', c_fromBlock = None, c_toBlock = None,
              c_addressFilter = None, c_topicsFilter = None \<rparr>)"
  by code_simp

lemma sample_hash_matched:
  "matchedLogs \<lparr> c_blockHash = Some ''aa02'', c_fromBlock = None, c_toBlock = None,
                 c_addressFilter = None, c_topicsFilter = None \<rparr> sampleHits
     = [(sampleDoc 2 ''aa02'' 50000 (Some ''04'') 20, sampleLog)]"
  by (simp add: matchedLogs_def keptLogs_def sampleHits_def sampleDoc_def sampleReceipt_def
      skippedByBlock_def truthyStr_def logFilterMatch_def truthyFilter_def)

lemma sample_empty_hash_query:
  "prepareLogsQuery ''0x2'' (noFilter\<lparr> f_blockHash := Some [], f_fromBlock := Some (BStr ''0x1''),
                                        f_toBlock := Some (BStr ''0x1'') \<rparr>)
     = Inr ([Exists ''@raw.logs'', Range ''@raw.block'' (Some 1) (Some 1)],
            \<lparr> c_blockHash = Some [], c_fromBlock = Some 1, c_toBlock = Some 1,
              c_addressFilter = None, c_topicsFilter = None \<rparr>)"
  by code_simp

lemma sample_empty_hash_matched:
  "matchedLogs \<lparr> c_blockHash = Some [], c_fromBlock = Some 1, c_toBlock = Some 1,
                 c_addressFilter = None, c_topicsFilter = None \<rparr> sampleHits
     = [(sampleDoc 1 ''aa01'' 21000 (Some ''01'') 10, sampleLog)]"
  by (simp add: matchedLogs_def keptLogs_def sampleHits_def sampleDoc_def sampleReceipt_def
      skippedByBlock_def truthyStr_def numGreater_def numLess_def logFilterMatch_def truthyFilter_def)

theorem eth_getLogs_blockHash_with_range_counterexample:
  "eth_getLogs sampleKeccak sampleSearch ''0x2''
     (noFilter\<lparr> f_blockHash := Some ''0xaa02'', f_fromBlock := Some (BNum 0) \<rparr>)
     = Inr [\<lparr> el_address = ''0xd102ce6a4db07d247fcc28f366a623df0938ca9e'',
              el_blockHash = ''0xaa02'', el_blockNumber = ''0x2'',
              el_data = ''0x'', el_logIndex = ''0x0'', el_removed = Some False,
              el_topics = [''0xddf252ad1be2c89b69c2b068fc378daa952ba7f163c4a11628f55a4df523b3ef''],
              el_transactionHash = ''0xaa02'', el_transactionIndex = ''0x0'' \<rparr>]
   \<and> eth_getLogs sampleKeccak sampleSearch ''0x2''
       (noFilter\<lparr> f_blockHash := Some [], f_fromBlock := Some (BStr ''0x1''),
                   f_toBlock := Some (BStr ''0x1'') \<rparr>)
     = Inr [\<lparr> el_address = ''0xd102ce6a4db07d247fcc28f366a623df0938ca9e'',
              el_blockHash = ''0xaa01'', el_blockNumber = ''0x1'',
              el_data = ''0x'', el_logIndex = ''0x0'', el_removed = Some False,
              el_topics = [''0xddf252ad1be2c89b69c2b068fc378daa952ba7f163c4a11628f55a4df523b3ef''],
              el_transactionHash = ''0xaa01'', el_transactionIndex = ''0x0'' \<rparr>]"
  unfolding eth_getLogs_results[OF sample_hash_query sample_search] sample_hash_matched
            eth_getLogs_results[OF sample_empty_hash_query sample_search] sample_empty_hash_matched
  using sample_numToHex by (simp add: sample_numbered)

section \<open>Object reconstruction engine: properties\<close>

lemma reconStep_gasUsedBlock:
  "rs_gasUsedBlock (reconStep x full st receiptDoc)
     = max (rs_gasUsedBlock st) (r_gasusedblock (d_raw receiptDoc))"
  by (simp add: reconStep_def Let_def max_def)

lemma bloomFromHex_empty: "bloomFromHex [] = 0"
  by (simp add: bloomFromHex_def hexValue_def)

lemma reconStep_bloom:
  "rs_bloom (reconStep x full st receiptDoc)
     = rs_bloom st OR foldr (OR) (map bloomFromHex (bloomsCarried [receiptDoc])) 0"
  by (simp add: reconStep_def Let_def bloomsCarried_def bloomOr_def truthyStr_def
      bloomFromHex_empty split: option.splits)

lemma reconLoop_gasUsedBlock:
  "rs_gasUsedBlock (reconLoop x full receipts st)
     = fold max (map (\<lambda>d. r_gasusedblock (d_raw d)) receipts) (rs_gasUsedBlock st)"
  by (induction receipts arbitrary: st) (simp_all add: reconStep_gasUsedBlock max.commute)

lemma bloomsCarried_Cons:
  "bloomsCarried (d # ds) = bloomsCarried [d] @ bloomsCarried ds"
  by (simp add: bloomsCarried_def)

lemma foldr_or_append:
  "foldr (OR) (xs @ ys) (0 :: bloom) = foldr (OR) xs 0 OR foldr (OR) ys 0"
  by (induction xs) (simp_all add: or.assoc)

lemma reconLoop_bloom:
  "rs_bloom (reconLoop x full receipts st)
     = rs_bloom st OR foldr (OR) (map bloomFromHex (bloomsCarried receipts)) 0"
proof (induction receipts arbitrary: st)
  case Nil
  then show ?case by (simp add: bloomsCarried_def)
next
  case (Cons d ds)
  have "rs_bloom (reconLoop x full (d # ds) st)
          = (rs_bloom st OR foldr (OR) (map bloomFromHex (bloomsCarried [d])) 0)
              OR foldr (OR) (map bloomFromHex (bloomsCarried ds)) 0"
    by (simp add: Cons.IH reconStep_bloom)
  also have "\<dots> = rs_bloom st OR foldr (OR) (map bloomFromHex (bloomsCarried (d # ds))) 0"
    by (subst bloomsCarried_Cons[of d ds]) (simp only: map_append foldr_or_append or.assoc)
  finally show ?case .
qed

lemma fold_max_zero:
  "xs \<noteq> [] \<Longrightarrow> fold max xs (0 :: nat) = Max (set xs)"
proof -
  assume ne: "xs \<noteq> []"
  have "fold max xs 0 = Max (set (0 # xs))"
    by (simp only: Max.set_eq_fold)
  also have "\<dots> = max 0 (Max (set xs))"
    using ne by (simp del: max_0L)
  finally show ?thesis by simp
qed

lemma reconstruct_gasUsed:
  "receipts \<noteq> [] \<Longrightarrow>
   blk_gasUsed (reconstructBlockFromReceipts x receipts full)
     = numToHex (Max (set (map (\<lambda>d. r_gasusedblock (d_raw d)) receipts)))"
  by (simp add: reconstructBlockFromReceipts_def Let_def reconLoop_gasUsedBlock reconInit_def
      fold_max_zero)

lemma reconstruct_logsBloom:
  "blk_logsBloom (reconstructBlockFromReceipts x receipts full)
     = ''0x'' @ bitvectorHex (foldr (OR) (map bloomFromHex (bloomsCarried receipts)) 0)"
  by (simp add: reconstructBlockFromReceipts_def Let_def reconLoop_bloom reconInit_def newBloom_def)

text \<open>
  C1. For every non-empty list of receipts, the block that \<open>reconstructBlockFromReceipts\<close>
  returns has as \<open>gasUsed\<close> the hex number of the maximum of the receipts' \<open>gasusedblock\<close>
  (not of their sum), and as \<open>logsBloom\<close> the hex digits of the bitwise OR of the blooms of
  the receipts that carry one; a receipt without a bloom contributes nothing.
\<close>

theorem reconstructBlock_gas_and_bloom:
  "receipts \<noteq> [] \<longrightarrow>
     blk_gasUsed (reconstructBlockFromReceipts x receipts full)
       = numToHex (Max (set (map (\<lambda>d. r_gasusedblock (d_raw d)) receipts)))
     \<and> blk_logsBloom (reconstructBlockFromReceipts x receipts full)
       = ''0x'' @ bitvectorHex (foldr (OR) (map bloomFromHex (bloomsCarried receipts)) 0)"
  using reconstruct_gasUsed reconstruct_logsBloom by blast

lemma sample_block_gas:
  "map (\<lambda>d. r_gasusedblock (d_raw d)) sampleBlockReceipts = [21000, 50000, 30000]"
  by (simp add: sampleBlockReceipts_def sampleDoc_def sampleReceipt_def)

lemma sample_block_blooms: "bloomsCarried sampleBlockReceipts = [''01'', ''04'']"
  by (simp add: bloomsCarried_def sampleBlockReceipts_def sampleDoc_def sampleReceipt_def)

lemma sample_bloom_values: "bloomFromHex ''01'' = 1" "bloomFromHex ''04'' = 4"
proof -
  have "hexValue (takeWhile isHexDigit ''01'') = 1" "hexValue (takeWhile isHexDigit ''04'') = 4"
    by code_simp+
  then show "bloomFromHex ''01'' = 1" "bloomFromHex ''04'' = 4"
    by (simp_all add: bloomFromHex_def)
qed

lemma sample_gas_hex: "numToHex 50000 = ''0xc350''"
proof -
  have "toString16 50000 = [hexDigit 12, hexDigit 3, hexDigit 5, hexDigit 0]"
    by (simp add: toString16.simps)
  moreover have "hexDigit 12 = CHR ''c''" "hexDigit 3 = CHR ''3''" "hexDigit 5 = CHR ''5''"
    "hexDigit 0 = CHR ''0''"
    by code_simp+
  ultimately show ?thesis by (simp add: numToHex_def)
qed

theorem reconstructBlock_gas_and_bloom_witness:
  "sampleBlockReceipts \<noteq> []
   \<and> blk_gasUsed (reconstructBlockFromReceipts sampleExt sampleBlockReceipts False) = ''0xc350''
   \<and> blk_logsBloom (reconstructBlockFromReceipts sampleExt sampleBlockReceipts False)
       = ''0x'' @ bitvectorHex 5"
proof -
  have ne: "sampleBlockReceipts \<noteq> []"
    by (simp add: sampleBlockReceipts_def)
  have m: "Max (set [21000, 50000, 30000 :: nat]) = 50000"
    by simp
  have o: "foldr (OR) [1, 4] (0 :: bloom) = 5"
    by simp
  from reconstructBlock_gas_and_bloom[of sampleBlockReceipts sampleExt False] ne
  show ?thesis
    by (simp add: sample_block_gas sample_block_blooms sample_bloom_values sample_gas_hex m o)
qed

section \<open>Trace builder: properties\<close>

lemma makeTracesLoop_map:
  "makeTracesLoop keccak receipt adHoc itxs results
     = results @ map (\<lambda>itx. makeTrace keccak receipt itx adHoc) itxs"
  by (induction itxs arbitrary: results) simp_all





lemma makeTraces_adhoc_mode:
  assumes "r_itxs receipt = Some itxs" and "makeInitialTrace keccak receipt True = Inr t"
  shows "makeTraces keccak receipt True
           = Inr (AdHocTraces \<lparr> ah_output = ''0x'' @ r_output receipt, ah_stateDiff = None,
                     ah_trace = t # map (\<lambda>itx. makeTrace keccak receipt itx True) itxs,
                     ah_vmTrace = None \<rparr>)"
  using assms by (simp add: makeTraces_def makeTracesLoop_map)


lemma makeInitialTrace_fields:
  assumes "makeInitialTrace keccak receipt adHoc = Inr t"
  shows "t_type t = ''call''"
    and "t_action t
     = \<lparr> ta_callType = ''call'', ta_from = toChecksumAddress keccak (r_from receipt),
         ta_gas = ''0x'' @ toString16 (r_gasused receipt), ta_input = r_input_data receipt,
         ta_to = toChecksumAddress keccak (r_to receipt), ta_value = ''0x'' @ r_value receipt \<rparr>"
    and "t_result t
     = \<lparr> tres_gasUsed = ''0x'' @ toString16 (r_gasused receipt),
         tres_output = ''0x'' @ r_output receipt \<rparr>"
    and "t_error t
     = (case r_errors receipt of None \<Rightarrow> None | Some [] \<Rightarrow> None | Some (e # es) \<Rightarrow> Some e)"
    and "t_link t = (if adHoc then None else Some (linkOf receipt))"
  using assms
  by (auto simp: makeInitialTrace_def Let_def split: option.splits list.splits if_splits)

lemma makeTrace_fields:
  "ta_callType (t_action (makeTrace keccak receipt itx adHoc)) = toOpname (itx_callType itx)"
  "t_link (makeTrace keccak receipt itx adHoc) = (if adHoc then None else Some (linkOf receipt))"
  by (simp_all add: makeTrace_def Let_def)

lemma toOpname_table:
  "toOpname ''f0'' = ''create''" "toOpname ''f1'' = ''call''" "toOpname ''f4'' = ''delegatecall''"
  "toOpname ''f5'' = ''create2''" "toOpname ''fa'' = ''staticcall''"
  "toOpname ''ff'' = ''selfdestruct''"
  by (simp_all add: toOpname_def)

lemma toOpname_default:
  "opcode \<notin> {''f0'', ''f1'', ''f4'', ''f5'', ''fa'', ''ff''} \<Longrightarrow> toOpname opcode = ''unkown''"
  by (simp add: toOpname_def)

text \<open>
  C8. The trace of an internal call whose opcode is not in the table (here \<open>00\<close>) carries
  the call type \<open>unkown\<close>, the default of \<open>toOpname\<close>, in both modes; it is not \<open>unknown\<close>.
\<close>

theorem makeTrace_unrecognized_opcode:
  "ta_callType (t_action (makeTrace keccak receipt (itx\<lparr> itx_callType := ''00'' \<rparr>) adHoc))
     = ''unkown''
   \<and> toOpname ''00'' \<noteq> ''unknown''"
  by (simp add: makeTrace_fields toOpname_def)

subsection \<open>The trace_block handler\<close>









section \<open>Dispatcher: properties\<close>

subsection \<open>A single request\<close>

lemma falsy_values:
  "\<not> truthy v \<longleftrightarrow> v \<in> {JUndefined, JNull, JBool False, JNum 0, JStr []}"
  by (cases v) (auto simp: truthy_def)

lemma doRpcMethod_invalid_version:
  assumes "\<not> nullish req" "truthy (getProp req ''jsonrpc'')" "getProp req ''jsonrpc'' \<noteq> JStr ''2.0''"
  shows "doRpcMethod numberText methods req reply
           = (setStatus reply 400,
              Inr (JObj [(''jsonrpc'', JStr ''2.0''), (''id'', getProp req ''id''),
                         (''error'', JObj [(''code'', JNum (- 32600)),
                                           (''message'', JStr ''Invalid JSON RPC'')])]))"
  using assms by (simp add: doRpcMethod_def jsonRPC2Error_def Let_def)

lemma doRpcMethod_accepted_version:
  assumes "\<not> nullish req" "\<not> truthy (getProp req ''jsonrpc'') \<or> getProp req ''jsonrpc'' = JStr ''2.0''"
  shows "doRpcMethod numberText methods req reply =
           (case lookupMethod methods (getProp req ''method'') of
              Some func \<Rightarrow>
                (case func (getProp req ''params'') of
                   Inr result \<Rightarrow>
                     (reply, Inr (JObj [(''id'', getProp req ''id''), (''jsonrpc'', JStr ''2.0''),
                                        (''result'', result)]))
                 | Inl e \<Rightarrow> (reply, catchBlock e (getProp req ''id'') (JStr ''2.0'')))
            | None \<Rightarrow>
                (case templateText numberText (getProp req ''method'') of
                   None \<Rightarrow> (reply, Inl (typeError ''Cannot convert object to primitive value''))
                 | Some methodText \<Rightarrow>
                     (setStatus reply 404,
                      Inr (JObj [(''jsonrpc'', JStr ''2.0''), (''id'', getProp req ''id''),
                                 (''error'', JObj [(''code'', JNum (- 32601)),
                                                   (''message'', JStr (''Invalid method: ''
                                                      @ methodText))])]))))"
  using assms by (auto simp: doRpcMethod_def jsonRPC2Error_def Let_def truthy_def
      split: option.splits sum.splits)

text \<open>
  C9. For every request that is not \<open>null\<close>: when its version field is absent or holds a
  falsy value (\<open>null\<close>, \<open>false\<close>, 0, the empty string) or is the string \<open>2.0\<close>, the request
  is dispatched as version 2.0: a registered method answers the handler's result (or the
  envelope that the catch block builds for what the handler throws), and a method that is
  not in the registry answers a MethodNotFound error envelope with code -32601 whose
  message prints the method. A method value that cannot be printed, such as an object with
  a \<open>toString\<close> key, makes the call throw instead. When the version field holds any other
  value, the answer is an InvalidRequest error envelope with code -32600, whatever the
  registry holds: no handler is reached.
\<close>

theorem doRpcMethod_version_and_method:
  "\<not> nullish req \<longrightarrow>
    (getProp req ''jsonrpc'' \<notin> {JUndefined, JNull, JBool False, JNum 0, JStr [], JStr ''2.0''}
       \<longrightarrow> doRpcMethod numberText methods req reply
             = (setStatus reply 400,
                Inr (JObj [(''jsonrpc'', JStr ''2.0''), (''id'', getProp req ''id''),
                           (''error'', JObj [(''code'', JNum (- 32600)),
                                             (''message'', JStr ''Invalid JSON RPC'')])])))
    \<and> (getProp req ''jsonrpc'' \<in> {JUndefined, JNull, JBool False, JNum 0, JStr [], JStr ''2.0''}
         \<and> lookupMethod methods (getProp req ''method'') = None
         \<and> templateText numberText (getProp req ''method'') = Some methodText
       \<longrightarrow> doRpcMethod numberText methods req reply
             = (setStatus reply 404,
                Inr (JObj [(''jsonrpc'', JStr ''2.0''), (''id'', getProp req ''id''),
                           (''error'', JObj [(''code'', JNum (- 32601)),
                                             (''message'', JStr (''Invalid method: ''
                                                @ methodText))])])))
    \<and> (getProp req ''jsonrpc'' \<in> {JUndefined, JNull, JBool False, JNum 0, JStr [], JStr ''2.0''}
         \<and> lookupMethod methods (getProp req ''method'') = None
         \<and> templateText numberText (getProp req ''method'') = None
       \<longrightarrow> doRpcMethod numberText methods req reply
             = (reply, Inl (typeError ''Cannot convert object to primitive value'')))
    \<and> (getProp req ''jsonrpc'' \<in> {JUndefined, JNull, JBool False, JNum 0, JStr [], JStr ''2.0''}
         \<and> lookupMethod methods (getProp req ''method'') = Some func
         \<and> func (getProp req ''params'') = Inr result
       \<longrightarrow> doRpcMethod numberText methods req reply
             = (reply, Inr (JObj [(''id'', getProp req ''id''), (''jsonrpc'', JStr ''2.0''),
                                  (''result'', result)])))
    \<and> (getProp req ''jsonrpc'' \<in> {JUndefined, JNull, JBool False, JNum 0, JStr [], JStr ''2.0''}
         \<and> lookupMethod methods (getProp req ''method'') = Some func
         \<and> func (getProp req ''params'') = Inl e
       \<longrightarrow> doRpcMethod numberText methods req reply
             = (reply, catchBlock e (getProp req ''id'') (JStr ''2.0'')))"
proof (intro impI conjI)
  assume n: "\<not> nullish req"
  {
    assume "getProp req ''jsonrpc'' \<notin> {JUndefined, JNull, JBool False, JNum 0, JStr [], JStr ''2.0''}"
    then have "truthy (getProp req ''jsonrpc'')" "getProp req ''jsonrpc'' \<noteq> JStr ''2.0''"
      using falsy_values[of "getProp req ''jsonrpc''"] by auto
    from doRpcMethod_invalid_version[OF n this]
    show "doRpcMethod numberText methods req reply
             = (setStatus reply 400,
                Inr (JObj [(''jsonrpc'', JStr ''2.0''), (''id'', getProp req ''id''),
                           (''error'', JObj [(''code'', JNum (- 32600)),
                                             (''message'', JStr ''Invalid JSON RPC'')])]))" .
  }
  have acc: "doRpcMethod numberText methods req reply =
           (case lookupMethod methods (getProp req ''method'') of
              Some func \<Rightarrow>
                (case func (getProp req ''params'') of
                   Inr result \<Rightarrow>
                     (reply, Inr (JObj [(''id'', getProp req ''id''), (''jsonrpc'', JStr ''2.0''),
                                        (''result'', result)]))
                 | Inl e \<Rightarrow> (reply, catchBlock e (getProp req ''id'') (JStr ''2.0'')))
            | None \<Rightarrow>
                (case templateText numberText (getProp req ''method'') of
                   None \<Rightarrow> (reply, Inl (typeError ''Cannot convert object to primitive value''))
                 | Some methodText \<Rightarrow>
                     (setStatus reply 404,
                      Inr (JObj [(''jsonrpc'', JStr ''2.0''), (''id'', getProp req ''id''),
                                 (''error'', JObj [(''code'', JNum (- 32601)),
                                                   (''message'', JStr (''Invalid method: ''
                                                      @ methodText))])]))))"
    if "getProp req ''jsonrpc'' \<in> {JUndefined, JNull, JBool False, JNum 0, JStr [], JStr ''2.0''}"
  proof -
    from that have "\<not> truthy (getProp req ''jsonrpc'') \<or> getProp req ''jsonrpc'' = JStr ''2.0''"
      using falsy_values[of "getProp req ''jsonrpc''"] by auto
    from doRpcMethod_accepted_version[OF n this] show ?thesis .
  qed
  {
    assume "getProp req ''jsonrpc'' \<in> {JUndefined, JNull, JBool False, JNum 0, JStr [], JStr ''2.0''}
         \<and> lookupMethod methods (getProp req ''method'') = None
         \<and> templateText numberText (getProp req ''method'') = Some methodText"
    then show "doRpcMethod numberText methods req reply
             = (setStatus reply 404,
                Inr (JObj [(''jsonrpc'', JStr ''2.0''), (''id'', getProp req ''id''),
                           (''error'', JObj [(''code'', JNum (- 32601)),
                                             (''message'', JStr (''Invalid method: ''
                                                @ methodText))])]))"
      using acc by simp
  }
  {
    assume "getProp req ''jsonrpc'' \<in> {JUndefined, JNull, JBool False, JNum 0, JStr [], JStr ''2.0''}
         \<and> lookupMethod methods (getProp req ''method'') = None
         \<and> templateText numberText (getProp req ''method'') = None"
    then show "doRpcMethod numberText methods req reply
             = (reply, Inl (typeError ''Cannot convert object to primitive value''))"
      using acc by simp
  }
  {
    assume "getProp req ''jsonrpc'' \<in> {JUndefined, JNull, JBool False, JNum 0, JStr [], JStr ''2.0''}
         \<and> lookupMethod methods (getProp req ''method'') = Some func
         \<and> func (getProp req ''params'') = Inr result"
    then show "doRpcMethod numberText methods req reply
             = (reply, Inr (JObj [(''id'', getProp req ''id''), (''jsonrpc'', JStr ''2.0''),
                                  (''result'', result)]))"
      using acc by simp
  }
  {
    assume "getProp req ''jsonrpc'' \<in> {JUndefined, JNull, JBool False, JNum 0, JStr [], JStr ''2.0''}
         \<and> lookupMethod methods (getProp req ''method'') = Some func
         \<and> func (getProp req ''params'') = Inl e"
    then show "doRpcMethod numberText methods req reply
             = (reply, catchBlock e (getProp req ''id'') (JStr ''2.0''))"
      using acc by simp
  }
qed

lemma sample_lookup:
  "lookupMethod sampleMethods (JStr ''eth_chainId'') = Some (\<lambda>params. Inr (JStr ''0x28''))"
  "lookupMethod sampleMethods (JStr ''bogus'') = None"
  by (simp_all add: lookupMethod_def sampleMethods_def)

lemma sample_props:
  "getProp (JObj [(''jsonrpc'', v), (''id'', i), (''method'', m)]) ''jsonrpc'' = v"
  "getProp (JObj [(''jsonrpc'', v), (''id'', i), (''method'', m)]) ''id'' = i"
  "getProp (JObj [(''jsonrpc'', v), (''id'', i), (''method'', m)]) ''method'' = m"
  "getProp (JObj [(''jsonrpc'', v), (''id'', i), (''method'', m)]) ''params'' = JUndefined"
  "getProp (JObj [(''id'', i), (''method'', m)]) ''jsonrpc'' = JUndefined"
  "getProp (JObj [(''id'', i), (''method'', m)]) ''id'' = i"
  "getProp (JObj [(''id'', i), (''method'', m)]) ''method'' = m"
  "getProp (JObj [(''id'', i), (''method'', m)]) ''params'' = JUndefined"
  by (simp_all add: getProp_def)

lemma sample_method_props:
  "getProp (JObj [(''id'', i), (''method'', m)]) ''toString'' = JUndefined"
  "lookupMethod sampleMethods (JObj kvs) = None"
  by (simp_all add: getProp_def lookupMethod_def)

theorem doRpcMethod_version_and_method_witness:
  "\<not> nullish (JObj [(''jsonrpc'', JStr ''1.0''), (''id'', JNum 1), (''method'', JStr ''eth_chainId'')])
   \<and> JStr ''1.0'' \<notin> {JUndefined, JNull, JBool False, JNum 0, JStr [], JStr ''2.0''}
   \<and> doRpcMethod decimalOfInt sampleMethods
        (JObj [(''jsonrpc'', JStr ''1.0''), (''id'', JNum 1), (''method'', JStr ''eth_chainId'')])
        (Reply 200)
       = (Reply 400,
          Inr (JObj [(''jsonrpc'', JStr ''2.0''), (''id'', JNum 1),
                     (''error'', JObj [(''code'', JNum (- 32600)),
                                       (''message'', JStr ''Invalid JSON RPC'')])]))
   \<and> \<not> nullish (JObj [(''id'', JNum 2), (''method'', JStr ''bogus'')])
   \<and> lookupMethod sampleMethods (JStr ''bogus'') = None
   \<and> templateText decimalOfInt (JStr ''bogus'') = Some ''bogus''
   \<and> doRpcMethod decimalOfInt sampleMethods (JObj [(''id'', JNum 2), (''method'', JStr ''bogus'')]) (Reply 200)
       = (Reply 404,
          Inr (JObj [(''jsonrpc'', JStr ''2.0''), (''id'', JNum 2),
                     (''error'', JObj [(''code'', JNum (- 32601)),
                                       (''message'', JStr ''Invalid method: bogus'')])]))
   \<and> lookupMethod sampleMethods (JStr ''eth_chainId'') = Some (\<lambda>params. Inr (JStr ''0x28''))
   \<and> doRpcMethod decimalOfInt sampleMethods (JObj [(''id'', JNum 3), (''method'', JStr ''eth_chainId'')]) (Reply 200)
       = (Reply 200,
          Inr (JObj [(''id'', JNum 3), (''jsonrpc'', JStr ''2.0''), (''result'', JStr ''0x28'')]))
   \<and> templateText decimalOfInt (JObj [(''toString'', JNum 1)]) = None
   \<and> doRpcMethod decimalOfInt sampleMethods
        (JObj [(''id'', JNum 4), (''method'', JObj [(''toString'', JNum 1)])]) (Reply 200)
       = (Reply 200, Inl (typeError ''Cannot convert object to primitive value''))"
  using doRpcMethod_version_and_method[where
          req = "JObj [(''jsonrpc'', JStr ''1.0''), (''id'', JNum 1), (''method'', JStr ''eth_chainId'')]"
          and methods = sampleMethods and reply = "Reply 200" and numberText = decimalOfInt
          and func = "\<lambda>params. Inr (JStr ''0x28'')" and result = "JStr ''0x28''"
          and e = "Thrown JNull" and methodText = "''bogus''"]
        doRpcMethod_version_and_method[where
          req = "JObj [(''id'', JNum 2), (''method'', JStr ''bogus'')]"
          and methods = sampleMethods and reply = "Reply 200" and numberText = decimalOfInt
          and func = "\<lambda>params. Inr (JStr ''0x28'')" and result = "JStr ''0x28''"
          and e = "Thrown JNull" and methodText = "''bogus''"]
        doRpcMethod_version_and_method[where
          req = "JObj [(''id'', JNum 3), (''method'', JStr ''eth_chainId'')]"
          and methods = sampleMethods and reply = "Reply 200" and numberText = decimalOfInt
          and func = "\<lambda>params. Inr (JStr ''0x28'')" and result = "JStr ''0x28''"
          and e = "Thrown JNull" and methodText = "''bogus''"]
        doRpcMethod_version_and_method[where
          req = "JObj [(''id'', JNum 4), (''method'', JObj [(''toString'', JNum 1)])]"
          and methods = sampleMethods and reply = "Reply 200" and numberText = decimalOfInt
          and func = "\<lambda>params. Inr (JStr ''0x28'')" and result = "JStr ''0x28''"
          and e = "Thrown JNull" and methodText = "''bogus''"]
  by (simp add: sample_props sample_lookup sample_method_props nullish_def setStatus_def)

theorem doRpcMethod_falsy_version_counterexample:
  "doRpcMethod decimalOfInt sampleMethods
     (JObj [(''jsonrpc'', JStr []), (''id'', JNum 1), (''method'', JStr ''eth_chainId'')]) (Reply 200)
     = (Reply 200,
        Inr (JObj [(''id'', JNum 1), (''jsonrpc'', JStr ''2.0''), (''result'', JStr ''0x28'')]))
   \<and> doRpcMethod decimalOfInt sampleMethods
       (JObj [(''jsonrpc'', JNull), (''id'', JNum 1), (''method'', JStr ''eth_chainId'')]) (Reply 200)
     = (Reply 200,
        Inr (JObj [(''id'', JNum 1), (''jsonrpc'', JStr ''2.0''), (''result'', JStr ''0x28'')]))
   \<and> getProp (JObj [(''jsonrpc'', JStr []), (''id'', JNum 1), (''method'', JStr ''eth_chainId'')])
         ''jsonrpc'' \<noteq> JUndefined
   \<and> getProp (JObj [(''jsonrpc'', JStr []), (''id'', JNum 1), (''method'', JStr ''eth_chainId'')])
         ''jsonrpc'' \<noteq> JStr ''2.0''"
  by (simp add: doRpcMethod_def sample_props sample_lookup nullish_def truthy_def)

subsection \<open>A batch\<close>

lemma jsonRPC2Error_response:
  "snd (jsonRPC2Error reply type requestId message code)
     = snd (jsonRPC2Error NoReply type requestId message code)"
  by (simp add: jsonRPC2Error_def Let_def)

lemma doRpcMethod_response:
  "snd (doRpcMethod numberText methods req reply) = snd (doRpcMethod numberText methods req NoReply)"
  by (simp add: doRpcMethod_def Let_def jsonRPC2Error_def split: option.splits sum.splits prod.splits)

lemma batchLoop_promises:
  "snd (batchLoop numberText methods requests reply promises)
     = promises @ map (\<lambda>req. snd (doRpcMethod numberText methods req NoReply)) requests"
proof (induction requests arbitrary: reply promises)
  case Nil
  then show ?case by simp
next
  case (Cons req requests)
  obtain reply1 promise where d: "doRpcMethod numberText methods req reply = (reply1, promise)"
    by (cases "doRpcMethod numberText methods req reply")
  then have "promise = snd (doRpcMethod numberText methods req NoReply)"
    using doRpcMethod_response[of numberText methods req reply] by simp
  with d Cons.IH show ?case by simp
qed

lemma promiseAll_Inr: "promiseAll (map Inr vs) = Inr vs"
  by (induction vs) simp_all

lemma promiseAll_rejects: "Inl e \<in> set ps \<Longrightarrow> \<exists>e'. promiseAll ps = Inl e'"
proof (induction ps)
  case Nil
  then show ?case by simp
next
  case (Cons p ps)
  then show ?case by (cases p) (auto split: sum.splits)
qed

lemma doRpcPayload_empty_batch: "doRpcPayload numberText methods (JArr []) reply = (reply, Inr JUndefined)"
  by (simp add: doRpcPayload_def)

text \<open>
  When each request of a non-empty batch gets an envelope on its own, the batch answers
  these envelopes, one per request, in the order of the requests.
\<close>

lemma doRpcPayload_batch_envelopes:
  assumes "requests \<noteq> []"
      and "\<forall>req \<in> set requests. snd (doRpcMethod numberText methods req NoReply) = Inr (respond req)"
  shows "snd (doRpcPayload numberText methods (JArr requests) reply) = Inr (JArr (map respond requests))"
proof -
  have "snd (batchLoop numberText methods requests reply []) = map Inr (map respond requests)"
    using assms(2) by (simp add: batchLoop_promises)
  then have "promiseAll (snd (batchLoop numberText methods requests reply [])) = Inr (map respond requests)"
    by (simp only: promiseAll_Inr)
  with assms(1) show ?thesis
    by (cases "batchLoop numberText methods requests reply []") (simp add: doRpcPayload_def)
qed

text \<open>
  A request that is \<open>null\<close> rejects the whole batch, and so does a request whose handler
  throws a ledger assertion failure (code 3050003) without a readable first detail.
\<close>

lemma doRpcPayload_batch_rejects:
  assumes "req \<in> set requests" and "snd (doRpcMethod numberText methods req NoReply) = Inl e"
  shows "\<exists>e'. snd (doRpcPayload numberText methods (JArr requests) reply) = Inl e'"
proof -
  from assms have ne: "requests \<noteq> []" by auto
  from assms have "Inl e \<in> set (snd (batchLoop numberText methods requests reply []))"
    by (force simp: batchLoop_promises)
  then obtain e' where "promiseAll (snd (batchLoop numberText methods requests reply [])) = Inl e'"
    using promiseAll_rejects by blast
  with ne show ?thesis
    by (cases "batchLoop numberText methods requests reply []") (simp add: doRpcPayload_def)
qed

lemma doRpcMethod_null_rejects: "\<exists>e. snd (doRpcMethod numberText methods JNull reply) = Inl e"
  by (simp add: doRpcMethod_def nullish_def)

lemma catchBlock_rethrows:
  "\<exists>e. catchBlock (Thrown (JObj [(''json'', JObj [(''error'',
            JObj [(''code'', JNum 3050003), (''details'', JArr [])])])])) ident jsonrpc = Inl e"
  by (simp add: catchBlock_def optGet_def getProp_def nullish_def index0_def Let_def)

text \<open>
  C2. A batch of two requests whose first entry is \<open>null\<close>: the second request alone gets
  its result envelope, but the batch gets no envelope at all, neither for the first nor for
  the second request; the promise of the batch rejects with the TypeError of the first.
\<close>

theorem doRpcPayload_null_entry_rejects_batch:
  "doRpcPayload numberText sampleMethods
     (JArr [JNull, JObj [(''id'', JNum 1), (''method'', JStr ''eth_chainId'')]]) (Reply 200)
     = (Reply 200,
        Inl (typeError ''Cannot destructure property 'jsonrpc' of 'jsonRpcRequest' as it is null.''))
   \<and> doRpcPayload numberText sampleMethods
       (JArr [JObj [(''id'', JNum 1), (''method'', JStr ''eth_chainId'')]]) (Reply 200)
     = (Reply 200,
        Inr (JArr [JObj [(''id'', JNum 1), (''jsonrpc'', JStr ''2.0''), (''result'', JStr ''0x28'')]]))"
  by (simp add: doRpcPayload_def doRpcMethod_def sample_props sample_lookup nullish_def truthy_def)

end
